theory Spec2Isabelle
  imports Main
begin

section \<open>JavaScript values and built-ins used by the client\<close>

text \<open>
  The client (src/src/client.ts) is TypeScript running on a JavaScript engine. The few
  built-ins it relies on are modelled here after ECMAScript: truthiness, \<open>String\<close> of a
  number, \<open>parseInt(s, 10)\<close>, property reads on object literals and property writes.
  Numbers are integer-valued binary64 values, held as mathematical integers; \<open>NaN\<close> is
  a value of its own. Strings are byte strings (code units up to 0xFF).
\<close>

datatype js_num = NaN | Finite int

text \<open>A value as \<open>JSON.parse\<close> returns it; a property read that finds nothing is
  \<open>None\<close> (JavaScript's \<open>undefined\<close>).\<close>

datatype json = JNull | JBool bool | JNum int | JStr string
  | JArr "json list" | JObj "(string \<times> json) list"

fun truthy :: "json option \<Rightarrow> bool" where
  "truthy None = False"
| "truthy (Some JNull) = False"
| "truthy (Some (JBool b)) = b"
| "truthy (Some (JNum n)) = (n \<noteq> 0)"
| "truthy (Some (JStr s)) = (s \<noteq> [])"
| "truthy (Some (JArr xs)) = True"
| "truthy (Some (JObj kvs)) = True"

text \<open>\<open>a || b\<close>: the left operand when it is truthy, the right one otherwise.\<close>

definition js_or :: "json option \<Rightarrow> json option \<Rightarrow> json option" where
  "js_or a b = (if truthy a then a else b)"

text \<open>Truthiness of an optional string (\<open>undefined\<close>, \<open>null\<close> and \<open>""\<close> are falsy).\<close>

definition truthy_str :: "string option \<Rightarrow> bool" where
  "truthy_str s = (case s of None \<Rightarrow> False | Some t \<Rightarrow> t \<noteq> [])"

text \<open>Truthiness of an optional number (\<open>undefined\<close> and \<open>0\<close> are falsy).\<close>

definition truthy_num :: "int option \<Rightarrow> bool" where
  "truthy_num n = (case n of None \<Rightarrow> False | Some k \<Rightarrow> k \<noteq> 0)"

subsection \<open>Decimal digits\<close>

definition digit_char :: "nat \<Rightarrow> char" where
  "digit_char d = ''0123456789'' ! d"

fun decimal :: "nat \<Rightarrow> string" where
  "decimal n = (if n < 10 then [digit_char n] else decimal (n div 10) @ [digit_char (n mod 10)])"

declare decimal.simps [simp del]

definition is_digit :: "char \<Rightarrow> bool" where
  "is_digit c = (c \<in> set ''0123456789'')"

definition digit_val :: "char \<Rightarrow> nat" where
  "digit_val c = length (takeWhile (\<lambda>d. d \<noteq> c) ''0123456789'')"

definition digits_val :: "string \<Rightarrow> nat" where
  "digits_val ds = foldl (\<lambda>a c. 10 * a + digit_val c) 0 ds"

subsection \<open>Rounding to binary64\<close>

fun bit_length :: "nat \<Rightarrow> nat" where
  "bit_length n = (if n = 0 then 0 else Suc (bit_length (n div 2)))"

declare bit_length.simps [simp del]

text \<open>
  The binary64 value nearest to a natural number, ties to the even significand
  (IEEE 754 round-to-nearest-even on 53 bits). Magnitudes of \<open>2^1024\<close> and more, which
  round to \<open>Infinity\<close>, are outside the model.
\<close>

definition round53 :: "nat \<Rightarrow> nat" where
  "round53 n =
     (if n < 2 ^ 53 then n
      else let e = bit_length n - 53; q = n div 2 ^ e; r = n mod 2 ^ e; h = 2 ^ (e - 1)
           in (if h < r \<or> (r = h \<and> odd q) then q + 1 else q) * 2 ^ e)"

text \<open>\<open>a * b\<close> on integer-valued numbers: the exact product, rounded to binary64.\<close>

definition js_times :: "int \<Rightarrow> int \<Rightarrow> int" where
  "js_times a b = sgn (a * b) * int (round53 (nat \<bar>a * b\<bar>))"

subsection \<open>Division and \<open>Math.round\<close>\<close>

text \<open>
  A finite binary64 value other than zero is a sign and \<open>m * 2^e\<close>, for a positive
  integer \<open>m\<close> and an integer \<open>e\<close>. \<open>divide53 m e k\<close> is the quotient of \<open>m * 2^e\<close> by the
  positive integer \<open>k\<close> as IEEE 754 division returns it, again as a significand and an
  exponent: the exact quotient is scaled by a power of two to an integer part \<open>q0\<close> of 55
  bits or more and a remainder \<open>r0\<close>, and rounded to the nearest number of 53 bits, a tie
  to the even one. The quotients taken by the client (an integer by 1000, then by 60)
  neither underflow nor overflow.
\<close>

definition divide53 :: "nat \<Rightarrow> int \<Rightarrow> nat \<Rightarrow> nat \<times> int" where
  "divide53 m e k =
     (let t = 54 + bit_length k; q0 = (m * 2 ^ t) div k; r0 = (m * 2 ^ t) mod k;
          b = bit_length q0 - 53; q = q0 div 2 ^ b;
          r = (q0 mod 2 ^ b) * k + r0; h = 2 ^ (b - 1) * k
      in (if h < r \<or> (r = h \<and> odd q) then q + 1 else q, e - int t + int b))"

text \<open>\<open>Math.round(x)\<close> for \<open>x = m * 2^e\<close>: the integer \<open>floor(x + 1/2)\<close>, without rounding
  error.\<close>

definition Math_round :: "int \<Rightarrow> int \<Rightarrow> int" where
  "Math_round m e =
     (if 0 \<le> e then m * 2 ^ nat e else (m + 2 ^ nat (- e - 1)) div 2 ^ nat (- e))"

subsection \<open>\<open>String(n)\<close> for an integer-valued number\<close>

text \<open>
  ECMAScript Number::toString writes the shortest digit string \<open>s\<close> (of \<open>k\<close> digits) that
  still identifies the value, as \<open>s\<close> followed by zeros while the value is below
  \<open>10^21\<close> and in exponent notation from there on. Up to \<open>2^53\<close> every integer is a
  binary64 value of its own, so the digits are the decimal expansion; beyond, the
  candidates at each precision are the two neighbouring multiples of the power of ten.
\<close>

definition shortest_at :: "nat \<Rightarrow> nat \<Rightarrow> nat option" where
  "shortest_at v p =
     (let lo = (v div p) * p; hi = lo + p;
          vl = (round53 lo = v); vh = (round53 hi = v)
      in if vl \<and> vh then
           (if v - lo < hi - v then Some lo
            else if hi - v < v - lo then Some hi
            else if even (lo div p) then Some lo else Some hi)
         else if vl then Some lo
         else if vh then Some hi
         else None)"

fun shortest_search :: "nat \<Rightarrow> nat \<Rightarrow> nat" where
  "shortest_search v l =
     (if l = 0 then v
      else case shortest_at v (10 ^ (l - 1)) of
             Some c \<Rightarrow> c
           | None \<Rightarrow> shortest_search v (l - 1))"

declare shortest_search.simps [simp del]

definition shortest_decimal :: "nat \<Rightarrow> nat" where
  "shortest_decimal v =
     (if v \<le> 2 ^ 53 then v
      else shortest_search v (length (decimal v)))"

definition strip_zeros :: "string \<Rightarrow> string" where
  "strip_zeros ds = rev (dropWhile (\<lambda>c. c = CHR ''0'') (rev ds))"

definition nat_toString :: "nat \<Rightarrow> string" where
  "nat_toString v =
     (let ds = decimal (shortest_decimal v); n = length ds; s = strip_zeros ds
      in if n \<le> 21 then ds
         else if length s = 1 then s @ ''e+'' @ decimal (n - 1)
         else hd s # ''.'' @ tl s @ ''e+'' @ decimal (n - 1))"

definition js_Number_toString :: "int \<Rightarrow> string" where
  "js_Number_toString n =
     (if n < 0 then ''-'' @ nat_toString (nat (- n)) else nat_toString (nat n))"

subsection \<open>\<open>parseInt(s, 10)\<close>\<close>

text \<open>
  The white space and line terminators of ECMAScript that a byte can hold: TAB, LF, VT,
  FF, CR, SP and NBSP (the others, such as U+FEFF and U+2028, lie above 0xFF).
\<close>

definition is_space :: "char \<Rightarrow> bool" where
  "is_space c = (c \<in> set [CHR 0x20, CHR 0x09, CHR 0x0A, CHR 0x0B, CHR 0x0C, CHR 0x0D, CHR 0xA0])"

text \<open>
  Leading white space is skipped, one sign is read, then the longest run of decimal
  digits; what follows is ignored. No digit at all gives \<open>NaN\<close>.
\<close>

definition js_parseInt :: "string \<Rightarrow> js_num" where
  "js_parseInt s =
     (let s1 = dropWhile is_space s;
          neg = (s1 \<noteq> [] \<and> hd s1 = CHR ''-'');
          s2 = (if s1 \<noteq> [] \<and> (hd s1 = CHR ''-'' \<or> hd s1 = CHR ''+'') then tl s1 else s1);
          ds = takeWhile is_digit s2
      in if ds = [] then NaN
         else Finite ((if neg then - 1 else 1) * int (round53 (digits_val ds))))"

section \<open>Errors\<close>

text \<open>
  Modelled from the spec: the error classes of utils/errors.ts, which is not among the
  sources. Each constructor carries the arguments client.ts passes: the message, and
  the retry delay in seconds (RateLimitError) or the HTTP status (CrmApiError).
  \<open>SyntaxError\<close> and \<open>TypeError\<close> are the engine's own exceptions, with the
  engine's message.
\<close>

datatype error =
    AuthenticationError string
  | RateLimitError string js_num
  | CrmApiError json int
  | SyntaxError string
  | TypeError string

section \<open>The shared request primitive\<close>

record TenantCredentials =
  apiKey :: "string option"
  baseUrl :: "string option"
  accessToken :: "string option"

definition API_BASE_URL :: string where
  "API_BASE_URL = ''https://api.hubapi.com''"

text \<open>The constructor's \<open>credentials.baseUrl || API_BASE_URL\<close>.\<close>

definition client_baseUrl :: "TenantCredentials \<Rightarrow> string" where
  "client_baseUrl credentials =
     (if truthy_str (baseUrl credentials) then the (baseUrl credentials) else API_BASE_URL)"

definition getAuthHeaders :: "TenantCredentials \<Rightarrow> error + (string \<rightharpoonup> string)" where
  "getAuthHeaders credentials =
     (if truthy_str (accessToken credentials) then
        Inr [''Authorization'' \<mapsto> ''Bearer '' @ the (accessToken credentials),
             ''Content-Type'' \<mapsto> ''application/json'']
      else if truthy_str (apiKey credentials) then
        Inr [''Authorization'' \<mapsto> ''Bearer '' @ the (apiKey credentials),
             ''Content-Type'' \<mapsto> ''application/json'']
      else Inl (AuthenticationError
        ''No credentials provided. Include X-CRM-API-Key or X-CRM-Access-Token header.''))"

text \<open>
  \<open>RequestInit\<close> as the client fills it. The body is the value handed to
  \<open>JSON.stringify\<close>, kept structured.
\<close>

record 'b RequestInit =
  req_method :: "string option"
  req_body :: "'b option"
  req_headers :: "(string \<rightharpoonup> string) option"

definition no_options :: "'b RequestInit" where
  "no_options = \<lparr>req_method = None, req_body = None, req_headers = None\<rparr>"

record 'b fetch_call =
  url :: string
  init :: "'b RequestInit"

text \<open>
  What the client reads of a \<open>Response\<close>: the status, the \<open>Retry-After\<close> header
  (\<open>None\<close> when \<open>headers.get\<close> returns \<open>null\<close>), and the body twice: as
  \<open>JSON.parse(await response.text())\<close> sees it on the error path (\<open>None\<close> when it throws)
  and as \<open>await response.json()\<close> cast to the caller's type \<open>T\<close> (\<open>Inl m\<close> when it rejects
  with a SyntaxError of message \<open>m\<close>).
\<close>

record 'a response =
  status :: int
  retry_after :: "string option"
  body_json :: "json option"
  body_typed :: "string + 'a"

definition ok :: "'a response \<Rightarrow> bool" where
  "ok r = (200 \<le> status r \<and> status r \<le> 299)"

text \<open>Reading \<open>.message\<close> or \<open>.error\<close> of a parsed body: own properties of an object,
  nothing on any other value (neither name is inherited from a prototype).\<close>

fun json_prop :: "json \<Rightarrow> string \<Rightarrow> json option" where
  "json_prop (JObj kvs) k = map_of kvs k"
| "json_prop v k = None"

text \<open>Lines 392-400 of client.ts: the message of a CrmApiError. Reading a property of
  \<open>null\<close> throws inside the \<open>try\<close>, which keeps the default.\<close>

definition error_message :: "json option \<Rightarrow> int \<Rightarrow> json" where
  "error_message errorBody st =
     (let message = JStr (''API error: '' @ js_Number_toString st)
      in case errorBody of
           None \<Rightarrow> message
         | Some JNull \<Rightarrow> message
         | Some errorJson \<Rightarrow>
             the (js_or (js_or (json_prop errorJson ''message'') (json_prop errorJson ''error''))
                        (Some message)))"

text \<open>
  An operation runs against the transport \<open>fetch\<close> and the list of calls issued so far;
  it returns its result, or the exception it throws, and the extended list.
\<close>

type_synonym ('b, 'r) io = "'b fetch_call list \<Rightarrow> (error + 'r) \<times> 'b fetch_call list"

definition bind_io :: "('b, 'r) io \<Rightarrow> ('r \<Rightarrow> ('b, 's) io) \<Rightarrow> ('b, 's) io" where
  "bind_io m k = (\<lambda>log. case m log of
       (Inl e, log') \<Rightarrow> (Inl e, log')
     | (Inr x, log') \<Rightarrow> k x log')"

definition return_io :: "'r \<Rightarrow> ('b, 'r) io" where
  "return_io x = (\<lambda>log. (Inr x, log))"

definition throw_io :: "error \<Rightarrow> ('b, 'r) io" where
  "throw_io e = (\<lambda>log. (Inl e, log))"

text \<open>Lines 369-410 of client.ts. The result \<open>None\<close> is \<open>undefined\<close> (status 204).
  The headers are built before \<open>fetch\<close> is called, so an exception of
  \<open>getAuthHeaders\<close> leaves the transport untouched.\<close>

definition classify :: "'a response \<Rightarrow> error + 'a option" where
  "classify r =
     (if status r = 429 then
        Inl (RateLimitError ''Rate limit exceeded''
              (if truthy_str (retry_after r) then js_parseInt (the (retry_after r)) else Finite 60))
      else if status r = 401 \<or> status r = 403 then
        Inl (AuthenticationError ''Authentication failed. Check your API credentials.'')
      else if \<not> ok r then
        Inl (CrmApiError (error_message (body_json r) (status r)) (status r))
      else if status r = 204 then Inr None
      else (case body_typed r of Inl m \<Rightarrow> Inl (SyntaxError m) | Inr v \<Rightarrow> Inr (Some v)))"

text \<open>The two arguments of \<open>fetch\<close>: the URL, and the options with the merged headers
  \<open>{...auth, ...(options.headers || {})}\<close>.\<close>

definition fetch_call_of ::
  "TenantCredentials \<Rightarrow> (string \<rightharpoonup> string) \<Rightarrow> string \<Rightarrow> 'b RequestInit \<Rightarrow> 'b fetch_call" where
  "fetch_call_of credentials auth endpoint options =
     \<lparr>url = client_baseUrl credentials @ endpoint,
      init = options\<lparr>req_headers :=
        Some (auth ++ (case req_headers options of None \<Rightarrow> Map.empty | Some h \<Rightarrow> h))\<rparr>\<rparr>"

definition request ::
  "TenantCredentials \<Rightarrow> ('b fetch_call \<Rightarrow> 'a response) \<Rightarrow> string \<Rightarrow> 'b RequestInit
     \<Rightarrow> ('b, 'a option) io" where
  "request credentials fetch endpoint options =
     (\<lambda>log. case getAuthHeaders credentials of
        Inl e \<Rightarrow> (Inl e, log)
      | Inr auth \<Rightarrow>
          (let call = fetch_call_of credentials auth endpoint options
           in (classify (fetch call), log @ [call])))"

text \<open>A response that makes \<open>request\<close> return the value \<open>v\<close>: a 2xx status other than
  204 and a body that parses to \<open>v\<close>.\<close>

definition succeeds_with :: "'a response \<Rightarrow> 'a \<Rightarrow> bool" where
  "succeeds_with r v =
     (200 \<le> status r \<and> status r \<le> 299 \<and> status r \<noteq> 204 \<and> body_typed r = Inr v)"

text \<open>A transport that answers every call with the same response.\<close>

definition always :: "'a response \<Rightarrow> 'b fetch_call \<Rightarrow> 'a response" where
  "always r call = r"

record ConnectionResult =
  connected :: bool
  message :: json

text \<open>\<open>error.message\<close> of a caught exception: the message the error was built with.\<close>

fun message_of :: "error \<Rightarrow> json" where
  "message_of (AuthenticationError m) = JStr m"
| "message_of (RateLimitError m d) = JStr m"
| "message_of (CrmApiError m st) = m"
| "message_of (SyntaxError m) = JStr m"
| "message_of (TypeError m) = JStr m"

definition testConnection ::
  "TenantCredentials \<Rightarrow> ('b fetch_call \<Rightarrow> 'a response) \<Rightarrow> ('b, ConnectionResult) io" where
  "testConnection credentials fetch =
     (\<lambda>log. case request credentials fetch ''/crm/v3/objects/contacts?limit=1'' no_options log of
        (Inr r, log') \<Rightarrow>
          (Inr \<lparr>connected = True, message = JStr ''Successfully connected to HubSpot CRM''\<rparr>, log')
      | (Inl e, log') \<Rightarrow> (Inr \<lparr>connected = False, message = message_of e\<rparr>, log'))"

section \<open>HubSpot response shapes\<close>

text \<open>
  The interfaces of client.ts, lines 100-147. Field names carry a short prefix where
  the source uses one name in several interfaces (\<open>id\<close>, \<open>results\<close>, \<open>status\<close>, ...).
  \<open>obj_properties\<close> gives a property's string; \<open>None\<close> stands for a property that is
  missing or \<open>null\<close>, which the client never tells apart (it reads properties through
  \<open>||\<close> and \<open>? :\<close> only).
\<close>

record HubSpotObject =
  obj_id :: string
  obj_properties :: "string \<rightharpoonup> string"
  obj_createdAt :: string
  obj_updatedAt :: string
  obj_archived :: bool

record hs_next = after :: string

record hs_paging = next_page :: "hs_next option"

record HubSpotListResponse =
  list_results :: "HubSpotObject list"
  list_paging :: "hs_paging option"

record HubSpotSearchResponse =
  search_total :: int
  search_results :: "HubSpotObject list"
  search_paging :: "hs_paging option"

text \<open>\<open>response.paging?.next?.after\<close>\<close>

definition paging_after :: "hs_paging option \<Rightarrow> string option" where
  "paging_after paging =
     (case paging of
        None \<Rightarrow> None
      | Some p \<Rightarrow> (case next_page p of None \<Rightarrow> None | Some n \<Rightarrow> Some (after n)))"

record PaginationParams =
  limit :: "int option"
  cursor :: "string option"
  offset :: "int option"

record 'T PaginatedResponse =
  items :: "'T list"
  count :: int
  page_total :: "int option"
  hasMore :: bool
  nextCursor :: "string option"

text \<open>The engine's message for a property read on \<open>undefined\<close> (V8).\<close>

definition undefined_read :: "string \<Rightarrow> error" where
  "undefined_read name =
     TypeError (''Cannot read properties of undefined (reading '' @ [CHR 0x27] @ name @ [CHR 0x27] @ '')'')"

section \<open>Query strings\<close>

text \<open>
  \<open>URLSearchParams\<close>: a list of name-value pairs, written in the
  application/x-www-form-urlencoded form by \<open>toString\<close> (letters, digits and \<open>*-._\<close>
  stay, a space becomes \<open>+\<close>, every other byte is percent-encoded).
\<close>

definition hex_digit :: "nat \<Rightarrow> char" where
  "hex_digit n = ''0123456789ABCDEF'' ! n"

definition urlencode_char :: "char \<Rightarrow> string" where
  "urlencode_char c =
     (if c \<in> set ''ABCDEFGHIJKLMNOPQRSTUVWXYZabcdefghijklmnopqrstuvwxyz0123456789*-._'' then [c]
      else if c = CHR 0x20 then ''+''
      else [CHR ''%'', hex_digit (of_char c div 16), hex_digit (of_char c mod 16)])"

definition urlencode :: "string \<Rightarrow> string" where
  "urlencode s = concat (map urlencode_char s)"

fun join_with :: "string \<Rightarrow> string list \<Rightarrow> string" where
  "join_with sep [] = []"
| "join_with sep [x] = x"
| "join_with sep (x # y # ys) = x @ sep @ join_with sep (y # ys)"

definition URLSearchParams_toString :: "(string \<times> string) list \<Rightarrow> string" where
  "URLSearchParams_toString ps =
     join_with ''&'' (map (\<lambda>(k, v). urlencode k @ ''='' @ urlencode v) ps)"

text \<open>\<open>set(name, value)\<close>: the first pair of that name takes the value and the others
  go; a new name is appended.\<close>

fun URLSearchParams_set :: "string \<Rightarrow> string \<Rightarrow> (string \<times> string) list \<Rightarrow> (string \<times> string) list" where
  "URLSearchParams_set k v [] = [(k, v)]"
| "URLSearchParams_set k v ((k', v') # ps) =
     (if k' = k then (k, v) # filter (\<lambda>(n, w). n \<noteq> k) ps
      else (k', v') # URLSearchParams_set k v ps)"

section \<open>List operations\<close>

text \<open>
  The thirteen paginated list methods (listContacts, lines 453-470, and its twelve
  siblings) are one body with three things changed: the path, the property list and
  the mapper from HubSpotObject to the entity. The mapper is a parameter here.
\<close>

datatype list_kind =
    Contacts | Companies | Deals | Tickets | Products | LineItems | Quotes
  | Notes | Meetings | Leads | Activities | Invoices | Orders

definition CONTACT_PROPERTIES :: string where
  "CONTACT_PROPERTIES =
     ''firstname,lastname,email,phone,jobtitle,company,lifecyclestage,hs_lead_status,createdate,lastmodifieddate''"

definition COMPANY_PROPERTIES :: string where
  "COMPANY_PROPERTIES =
     ''name,domain,website,industry,description,numberofemployees,annualrevenue,type,phone,createdate,lastmodifieddate''"

definition DEAL_PROPERTIES :: string where
  "DEAL_PROPERTIES =
     ''dealname,amount,dealstage,pipeline,closedate,hs_deal_stage_probability,createdate,lastmodifieddate''"

definition TICKET_PROPERTIES :: string where
  "TICKET_PROPERTIES =
     ''subject,content,hs_pipeline,hs_pipeline_stage,hs_ticket_priority,hubspot_owner_id,createdate,lastmodifieddate''"

definition PRODUCT_PROPERTIES :: string where
  "PRODUCT_PROPERTIES =
     ''name,description,price,hs_sku,hs_recurring_billing_period,createdate,lastmodifieddate''"

definition LINE_ITEM_PROPERTIES :: string where
  "LINE_ITEM_PROPERTIES =
     ''name,quantity,price,amount,discount,hs_product_id,createdate,lastmodifieddate''"

definition QUOTE_PROPERTIES :: string where
  "QUOTE_PROPERTIES =
     ''hs_title,hs_status,hs_expiration_date,hs_deal_id,hs_total,createdate,lastmodifieddate''"

definition NOTE_PROPERTIES :: string where
  "NOTE_PROPERTIES = ''hs_note_body,hs_timestamp,hubspot_owner_id,createdate,lastmodifieddate''"

definition MEETING_PROPERTIES :: string where
  "MEETING_PROPERTIES =
     ''hs_meeting_title,hs_meeting_body,hs_meeting_start_time,hs_meeting_end_time,hs_meeting_outcome,hubspot_owner_id,createdate,lastmodifieddate''"

definition LEAD_PROPERTIES :: string where
  "LEAD_PROPERTIES =
     ''firstname,lastname,email,phone,company,hs_lead_status,hs_leadstatus,createdate,lastmodifieddate''"

definition INVOICE_PROPERTIES :: string where
  "INVOICE_PROPERTIES = ''hs_number,hs_status,hs_due_date,hs_amount_billed,hs_currency,createdate''"

definition ORDER_PROPERTIES :: string where
  "ORDER_PROPERTIES =
     ''hs_order_name,hs_external_order_id,hs_fulfillment_status,hs_total_price,createdate''"

fun list_path :: "list_kind \<Rightarrow> string" where
  "list_path Contacts = ''/crm/v3/objects/contacts''"
| "list_path Companies = ''/crm/v3/objects/companies''"
| "list_path Deals = ''/crm/v3/objects/deals''"
| "list_path Tickets = ''/crm/v3/objects/tickets''"
| "list_path Products = ''/crm/v3/objects/products''"
| "list_path LineItems = ''/crm/v3/objects/line_items''"
| "list_path Quotes = ''/crm/v3/objects/quotes''"
| "list_path Notes = ''/crm/v3/objects/notes''"
| "list_path Meetings = ''/crm/v3/objects/meetings''"
| "list_path Leads = ''/crm/v3/objects/leads''"
| "list_path Activities = ''/crm/v3/objects/calls''"
| "list_path Invoices = ''/crm/v3/objects/invoices''"
| "list_path Orders = ''/crm/v3/objects/orders''"

fun list_properties :: "list_kind \<Rightarrow> string" where
  "list_properties Contacts = CONTACT_PROPERTIES"
| "list_properties Companies = COMPANY_PROPERTIES"
| "list_properties Deals = DEAL_PROPERTIES"
| "list_properties Tickets = TICKET_PROPERTIES"
| "list_properties Products = PRODUCT_PROPERTIES"
| "list_properties LineItems = LINE_ITEM_PROPERTIES"
| "list_properties Quotes = QUOTE_PROPERTIES"
| "list_properties Notes = NOTE_PROPERTIES"
| "list_properties Meetings = MEETING_PROPERTIES"
| "list_properties Leads = LEAD_PROPERTIES"
| "list_properties Activities = ''hs_call_title,hs_call_body,hs_call_duration,hs_timestamp''"
| "list_properties Invoices = INVOICE_PROPERTIES"
| "list_properties Orders = ORDER_PROPERTIES"

text \<open>\<open>params?.limit || 20\<close>\<close>

definition limit_or_default :: "int option \<Rightarrow> int" where
  "limit_or_default l = (if truthy_num l then the l else 20)"

definition list_query :: "list_kind \<Rightarrow> PaginationParams option \<Rightarrow> (string \<times> string) list" where
  "list_query kind params =
     (let queryParams =
            [(''limit'', js_Number_toString (limit_or_default (case params of None \<Rightarrow> None | Some p \<Rightarrow> limit p))),
             (''properties'', list_properties kind)];
          c = (case params of None \<Rightarrow> None | Some p \<Rightarrow> cursor p)
      in if truthy_str c then URLSearchParams_set ''after'' (the c) queryParams else queryParams)"

definition page_of :: "(HubSpotObject \<Rightarrow> 'T) \<Rightarrow> HubSpotListResponse \<Rightarrow> 'T PaginatedResponse" where
  "page_of mapper response =
     \<lparr>items = map mapper (list_results response),
      count = int (length (list_results response)),
      page_total = None,
      hasMore = truthy_str (paging_after (list_paging response)),
      nextCursor = paging_after (list_paging response)\<rparr>"

definition list_objects ::
  "list_kind \<Rightarrow> TenantCredentials \<Rightarrow> ('b fetch_call \<Rightarrow> HubSpotListResponse response)
     \<Rightarrow> (HubSpotObject \<Rightarrow> 'T) \<Rightarrow> PaginationParams option \<Rightarrow> ('b, 'T PaginatedResponse) io" where
  "list_objects kind credentials fetch mapper params =
     bind_io
       (request credentials fetch
          (list_path kind @ ''?'' @ URLSearchParams_toString (list_query kind params)) no_options)
       (\<lambda>response. case response of
            None \<Rightarrow> throw_io (undefined_read ''results'')
          | Some r \<Rightarrow> return_io (page_of mapper r))"

definition listContacts ::
  "TenantCredentials \<Rightarrow> ('b fetch_call \<Rightarrow> HubSpotListResponse response)
     \<Rightarrow> (HubSpotObject \<Rightarrow> 'T) \<Rightarrow> PaginationParams option \<Rightarrow> ('b, 'T PaginatedResponse) io" where
  "listContacts = list_objects Contacts"

section \<open>Search\<close>

record 'v SearchFilter =
  filter_field :: string
  filter_operator :: string
  filter_value :: 'v


record 'v SearchParams = PaginationParams +
  query :: "string option"
  filters :: "'v SearchFilter list option"
  sortBy :: "string option"
  sortOrder :: "string option"

text \<open>
  What a property read on an object literal of strings can give: one of its own
  strings, or a member it inherits from \<open>Object.prototype\<close> (a built-in function, or
  the prototype object itself under \<open>__proto__\<close>), which is truthy and is not a string.
\<close>

datatype js_member = OwnString string | Inherited string

definition Object_prototype_names :: "string list" where
  "Object_prototype_names =
     [''constructor'', ''__defineGetter__'', ''__defineSetter__'', ''hasOwnProperty'',
      ''__lookupGetter__'', ''__lookupSetter__'', ''isPrototypeOf'', ''propertyIsEnumerable'',
      ''toString'', ''valueOf'', ''__proto__'', ''toLocaleString'']"

definition literal_get :: "(string \<times> string) list \<Rightarrow> string \<Rightarrow> js_member option" where
  "literal_get obj k =
     (case map_of obj k of
        Some s \<Rightarrow> Some (OwnString s)
      | None \<Rightarrow> if k \<in> set Object_prototype_names then Some (Inherited k) else None)"

fun truthy_member :: "js_member option \<Rightarrow> bool" where
  "truthy_member None = False"
| "truthy_member (Some (OwnString s)) = (s \<noteq> [])"
| "truthy_member (Some (Inherited k)) = True"

definition operator_mapping :: "(string \<times> string) list" where
  "operator_mapping =
     [(''eq'', ''EQ''), (''neq'', ''NEQ''), (''lt'', ''LT''), (''lte'', ''LTE''),
      (''gt'', ''GT''), (''gte'', ''GTE''), (''contains'', ''CONTAINS_TOKEN''),
      (''not_contains'', ''NOT_CONTAINS_TOKEN''), (''in'', ''IN''), (''not_in'', ''NOT_IN''),
      (''is_null'', ''NOT_HAS_PROPERTY''), (''is_not_null'', ''HAS_PROPERTY'')]"

text \<open>Lines 586-602: \<open>return mapping[op] || 'EQ'\<close>.\<close>

definition mapFilterOperator :: "string \<Rightarrow> js_member" where
  "mapFilterOperator op =
     (if truthy_member (literal_get operator_mapping op)
      then the (literal_get operator_mapping op) else OwnString ''EQ'')"

text \<open>The search body handed to \<open>JSON.stringify\<close>; a key the code does not set is
  \<open>None\<close>. Source names: limit, properties, query, after, filterGroups
  (each \<open>{filters}\<close>, each filter \<open>{propertyName, operator, value}\<close>), sorts.\<close>

record 'v hs_filter =
  propertyName :: string
  hs_operator :: js_member
  hs_value :: 'v

record 'v hs_filter_group =
  group_filters :: "'v hs_filter list"

record hs_sort =
  sort_propertyName :: string
  sort_direction :: string

record 'v search_body =
  body_limit :: int
  body_properties :: "string list"
  body_query :: "string option"
  body_after :: "string option"
  filterGroups :: "'v hs_filter_group list option"
  sorts :: "hs_sort list option"

text \<open>\<open>s.split(',')\<close>\<close>

fun split_on :: "char \<Rightarrow> string \<Rightarrow> string list" where
  "split_on c [] = [[]]"
| "split_on c (x # xs) =
     (if x = c then [] # split_on c xs
      else (case split_on c xs of w # ws \<Rightarrow> (x # w) # ws | [] \<Rightarrow> [[x]]))"

datatype search_kind =
    SearchContacts | SearchCompanies | SearchDeals | SearchTickets | SearchProducts | SearchLeads

fun search_path :: "search_kind \<Rightarrow> string" where
  "search_path SearchContacts = ''/crm/v3/objects/contacts/search''"
| "search_path SearchCompanies = ''/crm/v3/objects/companies/search''"
| "search_path SearchDeals = ''/crm/v3/objects/deals/search''"
| "search_path SearchTickets = ''/crm/v3/objects/tickets/search''"
| "search_path SearchProducts = ''/crm/v3/objects/products/search''"
| "search_path SearchLeads = ''/crm/v3/objects/leads/search''"

fun search_properties :: "search_kind \<Rightarrow> string" where
  "search_properties SearchContacts = CONTACT_PROPERTIES"
| "search_properties SearchCompanies = COMPANY_PROPERTIES"
| "search_properties SearchDeals = DEAL_PROPERTIES"
| "search_properties SearchTickets = TICKET_PROPERTIES"
| "search_properties SearchProducts = PRODUCT_PROPERTIES"
| "search_properties SearchLeads = LEAD_PROPERTIES"

text \<open>searchProducts and searchLeads have no \<open>sortBy\<close> branch.\<close>

fun search_sorts :: "search_kind \<Rightarrow> bool" where
  "search_sorts SearchProducts = False"
| "search_sorts SearchLeads = False"
| "search_sorts k = True"

definition to_hs_filter :: "'v SearchFilter \<Rightarrow> 'v hs_filter" where
  "to_hs_filter f =
     \<lparr>propertyName = filter_field f,
      hs_operator = mapFilterOperator (filter_operator f),
      hs_value = filter_value f\<rparr>"

text \<open>The body of searchContacts (lines 537-565) and of its five siblings.\<close>

definition search_request_body :: "search_kind \<Rightarrow> 'v SearchParams \<Rightarrow> 'v search_body" where
  "search_request_body kind params =
     \<lparr>body_limit = limit_or_default (limit params),
      body_properties = split_on CHR '','' (search_properties kind),
      body_query = (if truthy_str (query params) then query params else None),
      body_after = (if truthy_str (cursor params) then cursor params else None),
      filterGroups =
        (case filters params of
           None \<Rightarrow> None
         | Some fs \<Rightarrow> if 0 < length fs then Some [\<lparr>group_filters = map to_hs_filter fs\<rparr>] else None),
      sorts =
        (if search_sorts kind \<and> truthy_str (sortBy params) then
           Some [\<lparr>sort_propertyName = the (sortBy params),
                  sort_direction = (if sortOrder params = Some ''desc'' then ''DESCENDING'' else ''ASCENDING'')\<rparr>]
         else None)\<rparr>"

definition search_page :: "(HubSpotObject \<Rightarrow> 'T) \<Rightarrow> HubSpotSearchResponse \<Rightarrow> 'T PaginatedResponse" where
  "search_page mapper response =
     \<lparr>items = map mapper (search_results response),
      count = int (length (search_results response)),
      page_total = Some (search_total response),
      hasMore = truthy_str (paging_after (search_paging response)),
      nextCursor = paging_after (search_paging response)\<rparr>"

definition search_objects ::
  "search_kind \<Rightarrow> TenantCredentials \<Rightarrow> ('v search_body fetch_call \<Rightarrow> HubSpotSearchResponse response)
     \<Rightarrow> (HubSpotObject \<Rightarrow> 'T) \<Rightarrow> 'v SearchParams \<Rightarrow> ('v search_body, 'T PaginatedResponse) io" where
  "search_objects kind credentials fetch mapper params =
     bind_io
       (request credentials fetch (search_path kind)
          \<lparr>req_method = Some ''POST'', req_body = Some (search_request_body kind params),
           req_headers = None\<rparr>)
       (\<lambda>response. case response of
            None \<Rightarrow> throw_io (undefined_read ''results'')
          | Some r \<Rightarrow> return_io (search_page mapper r))"

definition searchContacts ::
  "TenantCredentials \<Rightarrow> ('v search_body fetch_call \<Rightarrow> HubSpotSearchResponse response)
     \<Rightarrow> (HubSpotObject \<Rightarrow> 'T) \<Rightarrow> 'v SearchParams \<Rightarrow> ('v search_body, 'T PaginatedResponse) io" where
  "searchContacts = search_objects SearchContacts"

section \<open>Batch operations\<close>

text \<open>The local interface BatchResponse (source names: status, results, errors; an
  error entry is \<open>{status, message}\<close>) and the entity model's BatchResult.\<close>

record batch_error =
  error_status :: string
  error_text :: string

record BatchResponse =
  batch_status :: string
  batch_results :: "HubSpotObject list"
  batch_errors :: "batch_error list option"

record 'T BatchResult =
  result_status :: string
  results :: "'T list"
  errors :: "batch_error list option"

record batch_read_body =
  read_inputs :: "string list"
  read_properties :: "string list"

definition batch_result :: "(HubSpotObject \<Rightarrow> 'T) \<Rightarrow> BatchResponse \<Rightarrow> 'T BatchResult" where
  "batch_result mapper response =
     \<lparr>result_status = batch_status response,
      results = map mapper (batch_results response),
      errors = batch_errors response\<rparr>"

text \<open>Lines 2193-2221.\<close>

definition batchRead ::
  "TenantCredentials \<Rightarrow> (batch_read_body fetch_call \<Rightarrow> BatchResponse response) \<Rightarrow> string
     \<Rightarrow> string list \<Rightarrow> string list \<Rightarrow> (HubSpotObject \<Rightarrow> 'T) \<Rightarrow> (batch_read_body, 'T BatchResult) io" where
  "batchRead credentials fetch objectType ids props mapper =
     bind_io
       (request credentials fetch (''/crm/v3/objects/'' @ objectType @ ''/batch/read'')
          \<lparr>req_method = Some ''POST'',
           req_body = Some \<lparr>read_inputs = ids, read_properties = props\<rparr>,
           req_headers = None\<rparr>)
       (\<lambda>response. case response of
            None \<Rightarrow> throw_io (undefined_read ''status'')
          | Some r \<Rightarrow> return_io (batch_result mapper r))"

text \<open>Lines 2223-2250; the body is \<open>{inputs: [{properties}, ...]}\<close>.\<close>

definition batchCreate ::
  "TenantCredentials \<Rightarrow> ('p list fetch_call \<Rightarrow> BatchResponse response) \<Rightarrow> string
     \<Rightarrow> 'I list \<Rightarrow> ('I \<Rightarrow> 'p) \<Rightarrow> (HubSpotObject \<Rightarrow> 'T) \<Rightarrow> ('p list, 'T BatchResult) io" where
  "batchCreate credentials fetch objectType inputs propertyMapper resultMapper =
     bind_io
       (request credentials fetch (''/crm/v3/objects/'' @ objectType @ ''/batch/create'')
          \<lparr>req_method = Some ''POST'',
           req_body = Some (map propertyMapper inputs),
           req_headers = None\<rparr>)
       (\<lambda>response. case response of
            None \<Rightarrow> throw_io (undefined_read ''status'')
          | Some r \<Rightarrow> return_io (batch_result resultMapper r))"

text \<open>Lines 2252-2282; an input is its id and the rest, the body is
  \<open>{inputs: [{id, properties}, ...]}\<close>.\<close>

definition batchUpdate ::
  "TenantCredentials \<Rightarrow> ((string \<times> 'p) list fetch_call \<Rightarrow> BatchResponse response) \<Rightarrow> string
     \<Rightarrow> (string \<times> 'I) list \<Rightarrow> ('I \<Rightarrow> 'p) \<Rightarrow> (HubSpotObject \<Rightarrow> 'T)
     \<Rightarrow> ((string \<times> 'p) list, 'T BatchResult) io" where
  "batchUpdate credentials fetch objectType inputs propertyMapper resultMapper =
     bind_io
       (request credentials fetch (''/crm/v3/objects/'' @ objectType @ ''/batch/update'')
          \<lparr>req_method = Some ''POST'',
           req_body = Some (map (\<lambda>(i, rest). (i, propertyMapper rest)) inputs),
           req_headers = None\<rparr>)
       (\<lambda>response. case response of
            None \<Rightarrow> throw_io (undefined_read ''status'')
          | Some r \<Rightarrow> return_io (batch_result resultMapper r))"

section \<open>Create and update: the outgoing properties object\<close>

text \<open>
  An input object of the entity model (ContactCreateInput, ContactUpdateInput and the
  like): its string fields and its number fields by name, \<open>None\<close> for a field that is
  \<open>undefined\<close> or left out, and \<open>customFields\<close> as its entries in enumeration order
  (\<open>Object.entries\<close>, so no key comes twice). \<open>input.firstName\<close> is
  \<open>text_field input ''firstName''\<close>. A customFields value is \<open>undefined\<close> or a value as
  JSON carries it; numbers are integer-valued, as everywhere in this model.
\<close>

datatype js_value = PUndefined | PNull | PBool bool | PNum int | PStr string
  | PArr "js_value list" | PObj "(string \<times> js_value) list"

record crm_input =
  text_field :: "string \<rightharpoonup> string"
  number_field :: "string \<rightharpoonup> int"
  customFields :: "(string \<times> js_value) list option"

text \<open>
  \<open>String(value)\<close>. An array is its elements joined by commas, \<open>undefined\<close> and \<open>null\<close>
  elements as the empty string (\<open>Array.prototype.join\<close>); a plain object is
  \<open>[object Object]\<close>.
\<close>

fun js_String :: "js_value \<Rightarrow> string" where
  "js_String PUndefined = ''undefined''"
| "js_String PNull = ''null''"
| "js_String (PBool b) = (if b then ''true'' else ''false'')"
| "js_String (PNum n) = js_Number_toString n"
| "js_String (PStr s) = s"
| "js_String (PArr xs) =
     join_with '','' (map (\<lambda>x. if x = PUndefined \<or> x = PNull then [] else js_String x) xs)"
| "js_String (PObj kvs) = ''[object Object]''"

text \<open>
  \<open>properties\<close> is a \<open>Record<string, string>\<close> that starts as \<open>{}\<close>. The write
  \<open>properties[key] = s\<close> of a string creates or replaces the own property \<open>key\<close>, except
  under the name \<open>__proto__\<close>: that is the accessor of \<open>Object.prototype\<close>, whose setter
  ignores a value that is neither an object nor \<open>null\<close>.
\<close>

type_synonym props = "string \<rightharpoonup> string"

definition assign :: "string \<Rightarrow> string \<Rightarrow> props \<Rightarrow> props" where
  "assign key s properties = (if key = ''__proto__'' then properties else properties(key \<mapsto> s))"

text \<open>\<open>if (v !== undefined) properties.name = v\<close> and \<open>if (v) properties.name = v\<close>\<close>

definition set_if_defined :: "string \<Rightarrow> string option \<Rightarrow> props \<Rightarrow> props" where
  "set_if_defined name v properties =
     (case v of None \<Rightarrow> properties | Some s \<Rightarrow> assign name s properties)"

definition set_if_truthy :: "string \<Rightarrow> string option \<Rightarrow> props \<Rightarrow> props" where
  "set_if_truthy name v properties =
     (if truthy_str v then assign name (the v) properties else properties)"

text \<open>\<open>if (n !== undefined) properties.name = String(n)\<close>\<close>

definition set_number_if_defined :: "string \<Rightarrow> int option \<Rightarrow> props \<Rightarrow> props" where
  "set_number_if_defined name n properties =
     (case n of None \<Rightarrow> properties | Some k \<Rightarrow> assign name (js_Number_toString k) properties)"

text \<open>The loop over \<open>Object.entries(input.customFields)\<close>.\<close>

fun merge_entries :: "(string \<times> js_value) list \<Rightarrow> props \<Rightarrow> props" where
  "merge_entries [] properties = properties"
| "merge_entries ((key, v) # es) properties =
     merge_entries es
       (if v \<noteq> PUndefined \<and> v \<noteq> PNull then assign key (js_String v) properties else properties)"

definition merge_customFields :: "(string \<times> js_value) list option \<Rightarrow> props \<Rightarrow> props" where
  "merge_customFields cf properties =
     (case cf of None \<Rightarrow> properties | Some es \<Rightarrow> merge_entries es properties)"

text \<open>
  The statements these method bodies are made of, and what each does to \<open>properties\<close>:
  \<open>IfDefined n v\<close> is \<open>if (v !== undefined) properties.n = v\<close>,
  \<open>IfTruthy n v\<close> is \<open>if (v) properties.n = v\<close>,
  \<open>NumIfDefined n x\<close> is \<open>if (x !== undefined) properties.n = String(x)\<close>,
  \<open>Assign n s\<close> is \<open>properties.n = s\<close>, and \<open>MergeCustom cf\<close> is the block
  \<open>if (cf) { for (const [key, value] of Object.entries(cf)) ... }\<close>.
  A body runs its statements in order from \<open>properties = {}\<close>.
\<close>

datatype stmt =
    IfDefined string "string option"
  | IfTruthy string "string option"
  | NumIfDefined string "int option"
  | Assign string string
  | MergeCustom "(string \<times> js_value) list option"

fun exec :: "stmt \<Rightarrow> props \<Rightarrow> props" where
  "exec (IfDefined name v) properties = set_if_defined name v properties"
| "exec (IfTruthy name v) properties = set_if_truthy name v properties"
| "exec (NumIfDefined name n) properties = set_number_if_defined name n properties"
| "exec (Assign name s) properties = assign name s properties"
| "exec (MergeCustom cf) properties = merge_customFields cf properties"

definition run_statements :: "stmt list \<Rightarrow> props" where
  "run_statements stmts = foldl (\<lambda>properties s. exec s properties) Map.empty stmts"

datatype entity =
    Contact | Company | Deal | Ticket | Product | LineItem | Quote | Note | Meeting | Lead

text \<open>
  The ten update methods: updateContact (lines 505-529), updateCompany, updateDeal,
  updateTicket, updateProduct, updateLineItem, updateQuote, updateNote, updateMeeting,
  updateLead. Each is a run of \<open>!== undefined\<close> guards; updateNote and updateMeeting have
  no customFields loop.
\<close>

fun update_statements :: "entity \<Rightarrow> crm_input \<Rightarrow> stmt list" where
  "update_statements Contact input =
     [IfDefined ''firstname'' (text_field input ''firstName''),
      IfDefined ''lastname'' (text_field input ''lastName''),
      IfDefined ''email'' (text_field input ''email''),
      IfDefined ''phone'' (text_field input ''phone''),
      IfDefined ''jobtitle'' (text_field input ''title''),
      MergeCustom (customFields input)]"
| "update_statements Company input =
     [IfDefined ''name'' (text_field input ''name''),
      IfDefined ''domain'' (text_field input ''domain''),
      IfDefined ''industry'' (text_field input ''industry''),
      IfDefined ''description'' (text_field input ''description''),
      NumIfDefined ''numberofemployees'' (number_field input ''numberOfEmployees''),
      IfDefined ''type'' (text_field input ''type''),
      IfDefined ''phone'' (text_field input ''phone''),
      MergeCustom (customFields input)]"
| "update_statements Deal input =
     [IfDefined ''dealname'' (text_field input ''name''),
      NumIfDefined ''amount'' (number_field input ''amount''),
      IfDefined ''dealstage'' (text_field input ''stageId''),
      IfDefined ''closedate'' (text_field input ''closeDate''),
      MergeCustom (customFields input)]"
| "update_statements Ticket input =
     [IfDefined ''subject'' (text_field input ''subject''),
      IfDefined ''content'' (text_field input ''content''),
      IfDefined ''hs_pipeline_stage'' (text_field input ''stageId''),
      IfDefined ''hs_ticket_priority'' (text_field input ''priority''),
      IfDefined ''hubspot_owner_id'' (text_field input ''ownerId''),
      MergeCustom (customFields input)]"
| "update_statements Product input =
     [IfDefined ''name'' (text_field input ''name''),
      IfDefined ''description'' (text_field input ''description''),
      NumIfDefined ''price'' (number_field input ''price''),
      IfDefined ''hs_sku'' (text_field input ''sku''),
      IfDefined ''hs_recurring_billing_period'' (text_field input ''recurringBillingPeriod''),
      MergeCustom (customFields input)]"
| "update_statements LineItem input =
     [IfDefined ''name'' (text_field input ''name''),
      NumIfDefined ''quantity'' (number_field input ''quantity''),
      NumIfDefined ''price'' (number_field input ''price''),
      NumIfDefined ''discount'' (number_field input ''discount''),
      MergeCustom (customFields input)]"
| "update_statements Quote input =
     [IfDefined ''hs_title'' (text_field input ''title''),
      IfDefined ''hs_expiration_date'' (text_field input ''expirationDate''),
      IfDefined ''hs_status'' (text_field input ''status''),
      MergeCustom (customFields input)]"
| "update_statements Note input =
     [IfDefined ''hs_note_body'' (text_field input ''body''),
      IfDefined ''hs_timestamp'' (text_field input ''timestamp''),
      IfDefined ''hubspot_owner_id'' (text_field input ''ownerId'')]"
| "update_statements Meeting input =
     [IfDefined ''hs_meeting_title'' (text_field input ''title''),
      IfDefined ''hs_meeting_body'' (text_field input ''body''),
      IfDefined ''hs_meeting_start_time'' (text_field input ''startTime''),
      IfDefined ''hs_meeting_end_time'' (text_field input ''endTime''),
      IfDefined ''hs_meeting_outcome'' (text_field input ''outcome''),
      IfDefined ''hubspot_owner_id'' (text_field input ''ownerId'')]"
| "update_statements Lead input =
     [IfDefined ''firstname'' (text_field input ''firstName''),
      IfDefined ''lastname'' (text_field input ''lastName''),
      IfDefined ''email'' (text_field input ''email''),
      IfDefined ''phone'' (text_field input ''phone''),
      IfDefined ''company'' (text_field input ''company''),
      IfDefined ''hs_lead_status'' (text_field input ''status''),
      IfDefined ''hubspot_owner_id'' (text_field input ''ownerId''),
      MergeCustom (customFields input)]"

definition update_properties :: "entity \<Rightarrow> crm_input \<Rightarrow> props" where
  "update_properties e input = run_statements (update_statements e input)"


text \<open>
  The create methods: createContact (lines 479-503), createCompany, createDeal,
  createTicket, createProduct, createLineItem, createQuote, createLead, createNote and
  createMeeting. String fields are guarded by truthiness, number fields by
  \<open>!== undefined\<close>. createNote and createMeeting start from an object literal (a key
  whose value is \<open>undefined\<close> is dropped by \<open>JSON.stringify\<close>) and have no customFields
  loop; \<open>now\<close> is \<open>new Date().toISOString()\<close>.
\<close>

fun create_statements :: "string \<Rightarrow> entity \<Rightarrow> crm_input \<Rightarrow> stmt list" where
  "create_statements now Contact input =
     [IfTruthy ''firstname'' (text_field input ''firstName''),
      IfTruthy ''lastname'' (text_field input ''lastName''),
      IfTruthy ''email'' (text_field input ''email''),
      IfTruthy ''phone'' (text_field input ''phone''),
      IfTruthy ''jobtitle'' (text_field input ''title''),
      MergeCustom (customFields input)]"
| "create_statements now Company input =
     [IfTruthy ''name'' (text_field input ''name''),
      IfTruthy ''domain'' (text_field input ''domain''),
      IfTruthy ''industry'' (text_field input ''industry''),
      IfTruthy ''description'' (text_field input ''description''),
      NumIfDefined ''numberofemployees'' (number_field input ''numberOfEmployees''),
      IfTruthy ''type'' (text_field input ''type''),
      IfTruthy ''phone'' (text_field input ''phone''),
      MergeCustom (customFields input)]"
| "create_statements now Deal input =
     [IfTruthy ''dealname'' (text_field input ''name''),
      NumIfDefined ''amount'' (number_field input ''amount''),
      IfTruthy ''dealstage'' (text_field input ''stageId''),
      IfTruthy ''pipeline'' (text_field input ''pipelineId''),
      IfTruthy ''closedate'' (text_field input ''closeDate''),
      MergeCustom (customFields input)]"
| "create_statements now Ticket input =
     [IfTruthy ''subject'' (text_field input ''subject''),
      IfTruthy ''content'' (text_field input ''content''),
      IfTruthy ''hs_pipeline'' (text_field input ''pipelineId''),
      IfTruthy ''hs_pipeline_stage'' (text_field input ''stageId''),
      IfTruthy ''hs_ticket_priority'' (text_field input ''priority''),
      IfTruthy ''hubspot_owner_id'' (text_field input ''ownerId''),
      MergeCustom (customFields input)]"
| "create_statements now Product input =
     [IfTruthy ''name'' (text_field input ''name''),
      IfTruthy ''description'' (text_field input ''description''),
      NumIfDefined ''price'' (number_field input ''price''),
      IfTruthy ''hs_sku'' (text_field input ''sku''),
      IfTruthy ''hs_recurring_billing_period'' (text_field input ''recurringBillingPeriod''),
      MergeCustom (customFields input)]"
| "create_statements now LineItem input =
     [IfTruthy ''name'' (text_field input ''name''),
      NumIfDefined ''quantity'' (number_field input ''quantity''),
      NumIfDefined ''price'' (number_field input ''price''),
      NumIfDefined ''discount'' (number_field input ''discount''),
      IfTruthy ''hs_product_id'' (text_field input ''productId''),
      MergeCustom (customFields input)]"
| "create_statements now Quote input =
     [IfTruthy ''hs_title'' (text_field input ''title''),
      IfTruthy ''hs_expiration_date'' (text_field input ''expirationDate''),
      MergeCustom (customFields input)]"
| "create_statements now Lead input =
     [IfTruthy ''firstname'' (text_field input ''firstName''),
      IfTruthy ''lastname'' (text_field input ''lastName''),
      IfTruthy ''email'' (text_field input ''email''),
      IfTruthy ''phone'' (text_field input ''phone''),
      IfTruthy ''company'' (text_field input ''company''),
      IfTruthy ''hs_lead_status'' (text_field input ''status''),
      IfTruthy ''hubspot_owner_id'' (text_field input ''ownerId''),
      MergeCustom (customFields input)]"
| "create_statements now Note input =
     [IfDefined ''hs_note_body'' (text_field input ''body''),
      Assign ''hs_timestamp''
        (if truthy_str (text_field input ''timestamp'') then the (text_field input ''timestamp'') else now),
      IfTruthy ''hubspot_owner_id'' (text_field input ''ownerId'')]"
| "create_statements now Meeting input =
     [IfDefined ''hs_meeting_title'' (text_field input ''title''),
      IfDefined ''hs_meeting_start_time'' (text_field input ''startTime''),
      IfDefined ''hs_meeting_end_time'' (text_field input ''endTime''),
      IfTruthy ''hs_meeting_body'' (text_field input ''body''),
      IfTruthy ''hs_meeting_outcome'' (text_field input ''outcome''),
      IfTruthy ''hubspot_owner_id'' (text_field input ''ownerId'')]"

definition create_properties :: "string \<Rightarrow> entity \<Rightarrow> crm_input \<Rightarrow> props" where
  "create_properties now e input = run_statements (create_statements now e input)"



text \<open>
  The property mappers handed to batchCreate and batchUpdate (lines 2303-2487), for
  contacts, companies, deals and tickets. None of them reads customFields.
\<close>

datatype batch_kind = BatchContacts | BatchCompanies | BatchDeals | BatchTickets

fun batch_create_statements :: "batch_kind \<Rightarrow> crm_input \<Rightarrow> stmt list" where
  "batch_create_statements BatchContacts input =
     [IfTruthy ''firstname'' (text_field input ''firstName''),
      IfTruthy ''lastname'' (text_field input ''lastName''),
      IfTruthy ''email'' (text_field input ''email''),
      IfTruthy ''phone'' (text_field input ''phone''),
      IfTruthy ''jobtitle'' (text_field input ''title'')]"
| "batch_create_statements BatchCompanies input =
     [IfTruthy ''name'' (text_field input ''name''),
      IfTruthy ''domain'' (text_field input ''domain''),
      IfTruthy ''industry'' (text_field input ''industry''),
      IfTruthy ''description'' (text_field input ''description''),
      NumIfDefined ''numberofemployees'' (number_field input ''numberOfEmployees'')]"
| "batch_create_statements BatchDeals input =
     [IfTruthy ''dealname'' (text_field input ''name''),
      NumIfDefined ''amount'' (number_field input ''amount''),
      IfTruthy ''dealstage'' (text_field input ''stageId''),
      IfTruthy ''pipeline'' (text_field input ''pipelineId''),
      IfTruthy ''closedate'' (text_field input ''closeDate'')]"
| "batch_create_statements BatchTickets input =
     [IfTruthy ''subject'' (text_field input ''subject''),
      IfTruthy ''content'' (text_field input ''content''),
      IfTruthy ''hs_pipeline'' (text_field input ''pipelineId''),
      IfTruthy ''hs_pipeline_stage'' (text_field input ''stageId''),
      IfTruthy ''hs_ticket_priority'' (text_field input ''priority'')]"

fun batch_update_statements :: "batch_kind \<Rightarrow> crm_input \<Rightarrow> stmt list" where
  "batch_update_statements BatchContacts input =
     [IfDefined ''firstname'' (text_field input ''firstName''),
      IfDefined ''lastname'' (text_field input ''lastName''),
      IfDefined ''email'' (text_field input ''email''),
      IfDefined ''phone'' (text_field input ''phone''),
      IfDefined ''jobtitle'' (text_field input ''title'')]"
| "batch_update_statements BatchCompanies input =
     [IfDefined ''name'' (text_field input ''name''),
      IfDefined ''domain'' (text_field input ''domain''),
      IfDefined ''industry'' (text_field input ''industry''),
      IfDefined ''description'' (text_field input ''description''),
      NumIfDefined ''numberofemployees'' (number_field input ''numberOfEmployees'')]"
| "batch_update_statements BatchDeals input =
     [IfDefined ''dealname'' (text_field input ''name''),
      NumIfDefined ''amount'' (number_field input ''amount''),
      IfDefined ''dealstage'' (text_field input ''stageId''),
      IfDefined ''closedate'' (text_field input ''closeDate'')]"
| "batch_update_statements BatchTickets input =
     [IfDefined ''subject'' (text_field input ''subject''),
      IfDefined ''content'' (text_field input ''content''),
      IfDefined ''hs_pipeline_stage'' (text_field input ''stageId''),
      IfDefined ''hs_ticket_priority'' (text_field input ''priority'')]"

definition batch_create_properties :: "batch_kind \<Rightarrow> crm_input \<Rightarrow> props" where
  "batch_create_properties e input = run_statements (batch_create_statements e input)"

definition batch_update_properties :: "batch_kind \<Rightarrow> crm_input \<Rightarrow> props" where
  "batch_update_properties e input = run_statements (batch_update_statements e input)"

fun object_path :: "entity \<Rightarrow> string" where
  "object_path Contact = ''/crm/v3/objects/contacts''"
| "object_path Company = ''/crm/v3/objects/companies''"
| "object_path Deal = ''/crm/v3/objects/deals''"
| "object_path Ticket = ''/crm/v3/objects/tickets''"
| "object_path Product = ''/crm/v3/objects/products''"
| "object_path LineItem = ''/crm/v3/objects/line_items''"
| "object_path Quote = ''/crm/v3/objects/quotes''"
| "object_path Note = ''/crm/v3/objects/notes''"
| "object_path Meeting = ''/crm/v3/objects/meetings''"
| "object_path Lead = ''/crm/v3/objects/leads''"

text \<open>The ten update methods end alike: PATCH the object, map the response back
  (every mapper starts with \<open>obj.properties\<close>, which throws on the \<open>undefined\<close> of a
  204).\<close>

definition update_object ::
  "entity \<Rightarrow> TenantCredentials \<Rightarrow> (props fetch_call \<Rightarrow> HubSpotObject response)
     \<Rightarrow> (HubSpotObject \<Rightarrow> 'T) \<Rightarrow> string \<Rightarrow> crm_input \<Rightarrow> (props, 'T) io" where
  "update_object e credentials fetch mapper ident input =
     bind_io
       (request credentials fetch (object_path e @ ''/'' @ ident)
          \<lparr>req_method = Some ''PATCH'', req_body = Some (update_properties e input),
           req_headers = None\<rparr>)
       (\<lambda>response. case response of
            None \<Rightarrow> throw_io (undefined_read ''properties'')
          | Some obj \<Rightarrow> return_io (mapper obj))"

definition updateContact ::
  "TenantCredentials \<Rightarrow> (props fetch_call \<Rightarrow> HubSpotObject response)
     \<Rightarrow> (HubSpotObject \<Rightarrow> 'T) \<Rightarrow> string \<Rightarrow> crm_input \<Rightarrow> (props, 'T) io" where
  "updateContact = update_object Contact"

definition createContact ::
  "TenantCredentials \<Rightarrow> (props fetch_call \<Rightarrow> HubSpotObject response)
     \<Rightarrow> (HubSpotObject \<Rightarrow> 'T) \<Rightarrow> string \<Rightarrow> crm_input \<Rightarrow> (props, 'T) io" where
  "createContact credentials fetch mapper now input =
     bind_io
       (request credentials fetch ''/crm/v3/objects/contacts''
          \<lparr>req_method = Some ''POST'', req_body = Some (create_properties now Contact input),
           req_headers = None\<rparr>)
       (\<lambda>response. case response of
            None \<Rightarrow> throw_io (undefined_read ''properties'')
          | Some obj \<Rightarrow> return_io (mapper obj))"

text \<open>
  batchCreateContacts and batchUpdateContacts (lines 2303-2337), with the result mapper
  as a parameter. The other three families differ in the path segment and the mapper.
\<close>

fun batch_segment :: "batch_kind \<Rightarrow> string" where
  "batch_segment BatchContacts = ''contacts''"
| "batch_segment BatchCompanies = ''companies''"
| "batch_segment BatchDeals = ''deals''"
| "batch_segment BatchTickets = ''tickets''"

definition batch_create_objects ::
  "batch_kind \<Rightarrow> TenantCredentials \<Rightarrow> (props list fetch_call \<Rightarrow> BatchResponse response)
     \<Rightarrow> (HubSpotObject \<Rightarrow> 'T) \<Rightarrow> crm_input list \<Rightarrow> (props list, 'T BatchResult) io" where
  "batch_create_objects kind credentials fetch mapper inputs =
     batchCreate credentials fetch (batch_segment kind) inputs (batch_create_properties kind) mapper"

definition batch_update_objects ::
  "batch_kind \<Rightarrow> TenantCredentials \<Rightarrow> ((string \<times> props) list fetch_call \<Rightarrow> BatchResponse response)
     \<Rightarrow> (HubSpotObject \<Rightarrow> 'T) \<Rightarrow> (string \<times> crm_input) list
     \<Rightarrow> ((string \<times> props) list, 'T BatchResult) io" where
  "batch_update_objects kind credentials fetch mapper inputs =
     batchUpdate credentials fetch (batch_segment kind) inputs (batch_update_properties kind) mapper"

section \<open>Pipelines\<close>

text \<open>
  interface HubSpotPipeline and HubSpotPipelineStage (source names: id, label,
  displayOrder, stages, metadata) and the entity model's Pipeline and PipelineStage
  (id, name, order, probability, isClosed). \<open>parseFloat\<close> is a parameter.
\<close>

record stage_metadata =
  probability :: "string option"
  isClosed :: "string option"

record HubSpotPipelineStage =
  stage_id :: string
  stage_label :: string
  displayOrder :: int
  metadata :: stage_metadata

record HubSpotPipeline =
  pipeline_id :: string
  pipeline_label :: string
  pipeline_displayOrder :: int
  stages :: "HubSpotPipelineStage list"

record HubSpotPipelinesResponse =
  pipelines_results :: "HubSpotPipeline list"

record 'f PipelineStage =
  ps_id :: string
  ps_name :: string
  ps_order :: int
  ps_probability :: "'f option"
  ps_isClosed :: bool

record 'f Pipeline =
  p_id :: string
  p_name :: string
  p_stages :: "'f PipelineStage list"

text \<open>
  \<open>Array.prototype.sort\<close> with a comparator: the sort is stable (ECMAScript 2019), and
  an element goes before another when the comparator is negative. For a comparator
  that is a difference of numbers every correct stable sort gives this result.
\<close>

fun insert_by :: "('a \<Rightarrow> 'a \<Rightarrow> int) \<Rightarrow> 'a \<Rightarrow> 'a list \<Rightarrow> 'a list" where
  "insert_by cmp x [] = [x]"
| "insert_by cmp x (y # ys) = (if cmp x y \<le> 0 then x # y # ys else y # insert_by cmp x ys)"

definition js_sort :: "('a \<Rightarrow> 'a \<Rightarrow> int) \<Rightarrow> 'a list \<Rightarrow> 'a list" where
  "js_sort cmp xs = foldr (insert_by cmp) xs []"

definition map_stage :: "(string \<Rightarrow> 'f) \<Rightarrow> HubSpotPipelineStage \<Rightarrow> 'f PipelineStage" where
  "map_stage parseFloat s =
     \<lparr>ps_id = stage_id s,
      ps_name = stage_label s,
      ps_order = displayOrder s,
      ps_probability =
        (if truthy_str (probability (metadata s)) then Some (parseFloat (the (probability (metadata s))))
         else None),
      ps_isClosed = (isClosed (metadata s) = Some ''true'')\<rparr>"

text \<open>The return expression shared by listPipelines, listTicketPipelines, getPipeline,
  createPipeline and updatePipeline (lines 818-830, 1258-1270, 2556-2568, 2590-2602,
  2622-2634).\<close>

definition map_pipeline :: "(string \<Rightarrow> 'f) \<Rightarrow> HubSpotPipeline \<Rightarrow> 'f Pipeline" where
  "map_pipeline parseFloat p =
     \<lparr>p_id = pipeline_id p,
      p_name = pipeline_label p,
      p_stages =
        map (map_stage parseFloat)
          (js_sort (\<lambda>a b. displayOrder a - displayOrder b) (stages p))\<rparr>"

definition list_pipelines_at ::
  "string \<Rightarrow> TenantCredentials \<Rightarrow> ('b fetch_call \<Rightarrow> HubSpotPipelinesResponse response)
     \<Rightarrow> (string \<Rightarrow> 'f) \<Rightarrow> ('b, 'f Pipeline list) io" where
  "list_pipelines_at path credentials fetch parseFloat =
     bind_io (request credentials fetch path no_options)
       (\<lambda>response. case response of
            None \<Rightarrow> throw_io (undefined_read ''results'')
          | Some r \<Rightarrow> return_io (map (map_pipeline parseFloat) (pipelines_results r)))"

definition listPipelines ::
  "TenantCredentials \<Rightarrow> ('b fetch_call \<Rightarrow> HubSpotPipelinesResponse response)
     \<Rightarrow> (string \<Rightarrow> 'f) \<Rightarrow> ('b, 'f Pipeline list) io" where
  "listPipelines = list_pipelines_at ''/crm/v3/pipelines/deals''"

definition listTicketPipelines ::
  "TenantCredentials \<Rightarrow> ('b fetch_call \<Rightarrow> HubSpotPipelinesResponse response)
     \<Rightarrow> (string \<Rightarrow> 'f) \<Rightarrow> ('b, 'f Pipeline list) io" where
  "listTicketPipelines = list_pipelines_at ''/crm/v3/pipelines/tickets''"

definition pipeline_result ::
  "(string \<Rightarrow> 'f) \<Rightarrow> HubSpotPipeline option \<Rightarrow> ('b, 'f Pipeline) io" where
  "pipeline_result parseFloat response =
     (case response of
        None \<Rightarrow> throw_io (undefined_read ''id'')
      | Some p \<Rightarrow> return_io (map_pipeline parseFloat p))"

definition getPipeline ::
  "TenantCredentials \<Rightarrow> ('b fetch_call \<Rightarrow> HubSpotPipeline response) \<Rightarrow> (string \<Rightarrow> 'f)
     \<Rightarrow> string \<Rightarrow> string \<Rightarrow> ('b, 'f Pipeline) io" where
  "getPipeline credentials fetch parseFloat objectType pipelineId =
     bind_io
       (request credentials fetch (''/crm/v3/pipelines/'' @ objectType @ ''/'' @ pipelineId) no_options)
       (pipeline_result parseFloat)"

text \<open>PipelineCreateInput and PipelineStageInput, and the body createPipeline builds
  (lines 2572-2583).\<close>

record stage_metadata_input =
  probability_in :: "int option"
  isClosed_in :: "bool option"

record PipelineStageInput =
  stage_label_in :: string
  stage_displayOrder_in :: int
  stage_metadata_in :: "stage_metadata_input option"

record PipelineCreateInput =
  label_in :: string
  displayOrder_in :: "int option"
  stages_in :: "PipelineStageInput list"

record stage_body =
  sb_label :: string
  sb_displayOrder :: int
  sb_probability :: string
  sb_isClosed :: string

record pipeline_body =
  pb_label :: "string option"
  pb_displayOrder :: "int option"
  pb_stages :: "stage_body list option"

definition stage_body_of :: "PipelineStageInput \<Rightarrow> stage_body" where
  "stage_body_of s =
     (let p = (case stage_metadata_in s of None \<Rightarrow> None
               | Some m \<Rightarrow> map_option js_Number_toString (probability_in m));
          c = (case stage_metadata_in s of None \<Rightarrow> None
               | Some m \<Rightarrow> map_option (\<lambda>b. if b then ''true'' else ''false'') (isClosed_in m))
      in \<lparr>sb_label = stage_label_in s,
          sb_displayOrder = stage_displayOrder_in s,
          sb_probability = (if truthy_str p then the p else ''0''),
          sb_isClosed = (if truthy_str c then the c else ''false'')\<rparr>)"

definition createPipeline ::
  "TenantCredentials \<Rightarrow> (pipeline_body fetch_call \<Rightarrow> HubSpotPipeline response) \<Rightarrow> (string \<Rightarrow> 'f)
     \<Rightarrow> string \<Rightarrow> PipelineCreateInput \<Rightarrow> (pipeline_body, 'f Pipeline) io" where
  "createPipeline credentials fetch parseFloat objectType input =
     bind_io
       (request credentials fetch (''/crm/v3/pipelines/'' @ objectType)
          \<lparr>req_method = Some ''POST'',
           req_body = Some
             \<lparr>pb_label = Some (label_in input),
              pb_displayOrder = Some (if truthy_num (displayOrder_in input) then the (displayOrder_in input) else 0),
              pb_stages = Some (map stage_body_of (stages_in input))\<rparr>,
           req_headers = None\<rparr>)
       (pipeline_result parseFloat)"

text \<open>PipelineUpdateInput is \<open>{label?, displayOrder?}\<close>; updatePipeline copies the
  fields that are not \<open>undefined\<close> (lines 2605-2635).\<close>

record PipelineUpdateInput =
  label_upd :: "string option"
  displayOrder_upd :: "int option"

definition updatePipeline ::
  "TenantCredentials \<Rightarrow> (pipeline_body fetch_call \<Rightarrow> HubSpotPipeline response) \<Rightarrow> (string \<Rightarrow> 'f)
     \<Rightarrow> string \<Rightarrow> string \<Rightarrow> PipelineUpdateInput \<Rightarrow> (pipeline_body, 'f Pipeline) io" where
  "updatePipeline credentials fetch parseFloat objectType pipelineId input =
     bind_io
       (request credentials fetch (''/crm/v3/pipelines/'' @ objectType @ ''/'' @ pipelineId)
          \<lparr>req_method = Some ''PATCH'',
           req_body = Some
             \<lparr>pb_label = label_upd input, pb_displayOrder = displayOrder_upd input, pb_stages = None\<rparr>,
           req_headers = None\<rparr>)
       (pipeline_result parseFloat)"

section \<open>Activities\<close>

datatype activity_type = CallActivity | EmailActivity | NoteActivity

record Activity =
  activity_id :: string
  activity_kind :: activity_type
  subject :: string
  body :: "string option"
  durationMinutes :: "js_num option"
  activityDate :: "string option"
  activity_createdAt :: string
  activity_updatedAt :: string

text \<open>
  \<open>Math.round(ms / 1000 / 60)\<close> on the number \<open>parseInt\<close> returned: \<open>NaN\<close> stays \<open>NaN\<close>
  and zero stays zero; otherwise the magnitude is divided by 1000 and then by 60, each
  quotient rounded to binary64, and the result is rounded to an integer, a half going up.
\<close>

fun round_to_minutes :: "js_num \<Rightarrow> js_num" where
  "round_to_minutes NaN = NaN"
| "round_to_minutes (Finite ms) =
     (if ms = 0 then Finite 0
      else let (m1, e1) = divide53 (nat \<bar>ms\<bar>) 0 1000;
               (m2, e2) = divide53 m1 e1 60
           in Finite (Math_round (sgn ms * int m2) e2))"

text \<open>\<open>props.name || undefined\<close>\<close>

definition prop_or_undefined :: "props \<Rightarrow> string \<Rightarrow> string option" where
  "prop_or_undefined ps name = (if truthy_str (ps name) then ps name else None)"

text \<open>Lines 837-874.\<close>

definition mapHubSpotActivity :: "HubSpotObject \<Rightarrow> activity_type \<Rightarrow> Activity" where
  "mapHubSpotActivity obj kind =
     (let ps = obj_properties obj in
      case kind of
        CallActivity \<Rightarrow>
          \<lparr>activity_id = obj_id obj, activity_kind = CallActivity,
           subject = (if truthy_str (ps ''hs_call_title'') then the (ps ''hs_call_title'') else []),
           body = prop_or_undefined ps ''hs_call_body'',
           durationMinutes =
             (if truthy_str (ps ''hs_call_duration'')
              then Some (round_to_minutes (js_parseInt (the (ps ''hs_call_duration''))))
              else None),
           activityDate = prop_or_undefined ps ''hs_timestamp'',
           activity_createdAt = obj_createdAt obj, activity_updatedAt = obj_updatedAt obj\<rparr>
      | EmailActivity \<Rightarrow>
          \<lparr>activity_id = obj_id obj, activity_kind = EmailActivity,
           subject = (if truthy_str (ps ''hs_email_subject'') then the (ps ''hs_email_subject'') else []),
           body = prop_or_undefined ps ''hs_email_text'',
           durationMinutes = None,
           activityDate = prop_or_undefined ps ''hs_timestamp'',
           activity_createdAt = obj_createdAt obj, activity_updatedAt = obj_updatedAt obj\<rparr>
      | NoteActivity \<Rightarrow>
          \<lparr>activity_id = obj_id obj, activity_kind = NoteActivity,
           subject = ''Note'',
           body = prop_or_undefined ps ''hs_note_body'',
           durationMinutes = None,
           activityDate = prop_or_undefined ps ''hs_timestamp'',
           activity_createdAt = obj_createdAt obj, activity_updatedAt = obj_updatedAt obj\<rparr>)"

text \<open>The properties logCall sends (lines 934-940); \<open>now\<close> is
  \<open>new Date().toISOString()\<close>.\<close>

definition logCall_properties :: "string \<Rightarrow> string \<Rightarrow> string option \<Rightarrow> int option \<Rightarrow> props" where
  "logCall_properties now subj notes duration =
     run_statements
       ([Assign ''hs_call_title'' subj,
         Assign ''hs_timestamp'' now,
         IfTruthy ''hs_call_body'' notes]
        @ (if truthy_num duration
           then [Assign ''hs_call_duration''
                   (js_Number_toString (js_times (js_times (the duration) 60) 1000))]
           else []))"

text \<open>Lines 928-956. The call is created, then linked to the contact when a contact id
  is given, then mapped back.\<close>

definition logCall ::
  "TenantCredentials \<Rightarrow> (props fetch_call \<Rightarrow> HubSpotObject response) \<Rightarrow> string
     \<Rightarrow> string \<Rightarrow> string \<Rightarrow> string option \<Rightarrow> int option \<Rightarrow> (props, Activity) io" where
  "logCall credentials fetch now contactId subj notes duration =
     bind_io
       (request credentials fetch ''/crm/v3/objects/calls''
          \<lparr>req_method = Some ''POST'',
           req_body = Some (logCall_properties now subj notes duration),
           req_headers = None\<rparr>)
       (\<lambda>response.
          bind_io
            (if contactId \<noteq> [] then
               (case response of
                  None \<Rightarrow> throw_io (undefined_read ''id'')
                | Some obj \<Rightarrow>
                    bind_io
                      (request credentials fetch
                         (''/crm/v3/objects/calls/'' @ obj_id obj @ ''/associations/contacts/'' @ contactId @ ''/194'')
                         \<lparr>req_method = Some ''PUT'', req_body = None, req_headers = None\<rparr>)
                      (\<lambda>linked. return_io ()))
             else return_io ())
            (\<lambda>u. case response of
                 None \<Rightarrow> throw_io (undefined_read ''properties'')
               | Some obj \<Rightarrow> return_io (mapHubSpotActivity obj CallActivity)))"

section \<open>Example data\<close>

text \<open>Concrete values for the examples that follow the theorems.\<close>

definition example_credentials :: TenantCredentials where
  "example_credentials = \<lparr>apiKey = Some ''key'', baseUrl = None, accessToken = None\<rparr>"

definition no_credentials :: TenantCredentials where
  "no_credentials = \<lparr>apiKey = None, baseUrl = None, accessToken = None\<rparr>"

definition json_response :: "int \<Rightarrow> 'a \<Rightarrow> 'a response" where
  "json_response st v = \<lparr>status = st, retry_after = None, body_json = None, body_typed = Inr v\<rparr>"

definition example_object :: "string \<Rightarrow> props \<Rightarrow> HubSpotObject" where
  "example_object ident ps =
     \<lparr>obj_id = ident, obj_properties = ps, obj_createdAt = ''2024-01-01T00:00:00Z'',
      obj_updatedAt = ''2024-01-02T00:00:00Z'', obj_archived = False\<rparr>"

definition example_stage :: "string \<Rightarrow> int \<Rightarrow> HubSpotPipelineStage" where
  "example_stage name n =
     \<lparr>stage_id = name, stage_label = name, displayOrder = n,
      metadata = \<lparr>probability = None, isClosed = Some ''false''\<rparr>\<rparr>"

definition example_pipeline :: HubSpotPipeline where
  "example_pipeline =
     \<lparr>pipeline_id = ''default'', pipeline_label = ''Sales'', pipeline_displayOrder = 0,
      stages = [example_stage ''won'' 3, example_stage ''new'' 1, example_stage ''demo'' 2]\<rparr>"

section \<open>The request primitive: classification, credentials, rate limits\<close>

lemma getAuthHeaders_none:
  "\<not> truthy_str (apiKey c) \<Longrightarrow> \<not> truthy_str (accessToken c) \<Longrightarrow>
     getAuthHeaders c = Inl (AuthenticationError ''No credentials provided. Include X-CRM-API-Key or X-CRM-Access-Token header.'')"
  by (simp add: getAuthHeaders_def)

lemma request_no_credentials:
  "\<not> truthy_str (apiKey c) \<Longrightarrow> \<not> truthy_str (accessToken c) \<Longrightarrow>
     request c fetch endpoint options log =
       (Inl (AuthenticationError ''No credentials provided. Include X-CRM-API-Key or X-CRM-Access-Token header.''), log)"
  by (simp add: request_def getAuthHeaders_none)

lemma bind_no_credentials:
  "\<not> truthy_str (apiKey c) \<Longrightarrow> \<not> truthy_str (accessToken c) \<Longrightarrow>
     bind_io (request c fetch endpoint options) k log =
       (Inl (AuthenticationError ''No credentials provided. Include X-CRM-API-Key or X-CRM-Access-Token header.''), log)"
  by (simp add: bind_io_def request_no_credentials)

lemma request_with_credentials:
  "getAuthHeaders c = Inr auth \<Longrightarrow>
     request c fetch endpoint options log =
       (classify (fetch (fetch_call_of c auth endpoint options)),
        log @ [fetch_call_of c auth endpoint options])"
  by (simp add: request_def Let_def)

lemma error_message_cases:
  "error_message b st =
     (case b of
        None \<Rightarrow> JStr (''API error: '' @ js_Number_toString st)
      | Some j \<Rightarrow>
          if truthy (json_prop j ''message'') then the (json_prop j ''message'')
          else if truthy (json_prop j ''error'') then the (json_prop j ''error'')
          else JStr (''API error: '' @ js_Number_toString st))"
  by (cases b; simp add: error_message_def js_or_def Let_def split: json.splits)

lemma truthy_the: "truthy x \<Longrightarrow> x = Some (the x)"
  by (cases x) simp_all

lemma status_text_eval:
  "js_Number_toString 500 = ''500''" "js_Number_toString 404 = ''404''"
  by (simp_all add: js_Number_toString_def nat_toString_def shortest_decimal_def decimal.simps digit_char_def)

lemma getAuthHeaders_apiKey:
  "getAuthHeaders \<lparr>apiKey = Some ''key'', baseUrl = None, accessToken = None\<rparr> =
     Inr [''Authorization'' \<mapsto> ''Bearer key'', ''Content-Type'' \<mapsto> ''application/json'']"
  by (simp add: getAuthHeaders_def truthy_str_def)

lemma classify_success: "succeeds_with r v \<Longrightarrow> classify r = Inr (Some v)"
  by (auto simp add: succeeds_with_def classify_def ok_def)

lemma bind_request_success:
  "getAuthHeaders c = Inr auth \<Longrightarrow> succeeds_with r v \<Longrightarrow>
     bind_io (request c (always r) endpoint options) k log =
       k (Some v) (log @ [fetch_call_of c auth endpoint options])"
  by (simp add: bind_io_def request_with_credentials always_def classify_success)

text \<open>
  Claim C1, as amended. Whatever response the transport gives to the request primitive,
  the result is decided by the status: 429 is a RateLimitError; 401 and 403 are an
  AuthenticationError; any other status outside 200..299 is a CrmApiError with that
  status, whose message is the body's \<open>message\<close> value when that is truthy, else its
  \<open>error\<close> value when that is truthy, and \<open>API error: <status>\<close> when the body is not
  JSON or neither value is truthy; 204 is success with \<open>undefined\<close>; any other 2xx
  status is the body as \<open>response.json()\<close> parses it (its SyntaxError when it does not
  parse).
\<close>

theorem C1_response_classification:
  fixes fetch :: "'b fetch_call \<Rightarrow> 'a response"
  assumes "getAuthHeaders c = Inr auth"
  shows "let r = fetch (fetch_call_of c auth endpoint options);
             res = fst (request c fetch endpoint options log);
             fallback = JStr (''API error: '' @ js_Number_toString (status r))
         in (status r = 429 \<longrightarrow> (\<exists>d. res = Inl (RateLimitError ''Rate limit exceeded'' d)))
          \<and> (status r = 401 \<or> status r = 403 \<longrightarrow>
               res = Inl (AuthenticationError ''Authentication failed. Check your API credentials.''))
          \<and> (status r \<noteq> 429 \<and> status r \<noteq> 401 \<and> status r \<noteq> 403 \<and> (status r < 200 \<or> 299 < status r) \<longrightarrow>
               (\<exists>m. res = Inl (CrmApiError m (status r)) \<and>
                 (case body_json r of
                    None \<Rightarrow> m = fallback
                  | Some j \<Rightarrow>
                      if truthy (json_prop j ''message'') then json_prop j ''message'' = Some m
                      else if truthy (json_prop j ''error'') then json_prop j ''error'' = Some m
                      else m = fallback)))
          \<and> (status r = 204 \<longrightarrow> res = Inr None)
          \<and> (200 \<le> status r \<and> status r \<le> 299 \<and> status r \<noteq> 204 \<longrightarrow>
               (case body_typed r of Inl e \<Rightarrow> res = Inl (SyntaxError e) | Inr v \<Rightarrow> res = Inr (Some v)))"
proof -
  define r where "r = fetch (fetch_call_of c auth endpoint options)"
  have res: "fst (request c fetch endpoint options log) = classify r"
    by (simp add: request_with_credentials [OF assms] r_def)
  have c1: "status r = 429 \<longrightarrow> (\<exists>d. classify r = Inl (RateLimitError ''Rate limit exceeded'' d))"
    by (simp add: classify_def)
  have c2: "status r = 401 \<or> status r = 403 \<longrightarrow>
      classify r = Inl (AuthenticationError ''Authentication failed. Check your API credentials.'')"
    by (auto simp add: classify_def)
  have c3: "status r \<noteq> 429 \<and> status r \<noteq> 401 \<and> status r \<noteq> 403 \<and> (status r < 200 \<or> 299 < status r) \<longrightarrow>
      (\<exists>m. classify r = Inl (CrmApiError m (status r)) \<and>
        (case body_json r of
           None \<Rightarrow> m = JStr (''API error: '' @ js_Number_toString (status r))
         | Some j \<Rightarrow>
             if truthy (json_prop j ''message'') then json_prop j ''message'' = Some m
             else if truthy (json_prop j ''error'') then json_prop j ''error'' = Some m
             else m = JStr (''API error: '' @ js_Number_toString (status r))))"
    by (auto simp add: classify_def ok_def error_message_cases truthy_the split: option.splits)
  have c4: "status r = 204 \<longrightarrow> classify r = Inr None"
    by (simp add: classify_def ok_def)
  have c5: "200 \<le> status r \<and> status r \<le> 299 \<and> status r \<noteq> 204 \<longrightarrow>
      (case body_typed r of Inl e \<Rightarrow> classify r = Inl (SyntaxError e) | Inr v \<Rightarrow> classify r = Inr (Some v))"
    by (auto simp add: classify_def ok_def split: sum.splits)
  show ?thesis
    unfolding Let_def res r_def [symmetric]
    using c1 c2 c3 c4 c5 by blast
qed

theorem C1_response_classification_witness:
  "fst (request \<lparr>apiKey = Some ''key'', baseUrl = None, accessToken = None\<rparr>
          (always \<lparr>status = 404, retry_after = None,
                   body_json = Some (JObj [(''message'', JStr ''Not found'')]),
                   body_typed = (Inl [] :: string + unit)\<rparr>)
          ''/crm/v3/objects/contacts/1'' (no_options :: unit RequestInit) [])
     = Inl (CrmApiError (JStr ''Not found'') 404)
   \<and> fst (request \<lparr>apiKey = Some ''key'', baseUrl = None, accessToken = None\<rparr>
          (always \<lparr>status = 500, retry_after = None,
                   body_json = Some (JObj [(''error'', JStr ''boom'')]),
                   body_typed = (Inl [] :: string + unit)\<rparr>)
          ''/crm/v3/objects/contacts/1'' (no_options :: unit RequestInit) [])
     = Inl (CrmApiError (JStr ''boom'') 500)
   \<and> fst (request \<lparr>apiKey = Some ''key'', baseUrl = None, accessToken = None\<rparr>
          (always \<lparr>status = 500, retry_after = None, body_json = None,
                   body_typed = (Inl [] :: string + unit)\<rparr>)
          ''/crm/v3/objects/contacts/1'' (no_options :: unit RequestInit) [])
     = Inl (CrmApiError (JStr ''API error: 500'') 500)
   \<and> fst (request \<lparr>apiKey = Some ''key'', baseUrl = None, accessToken = None\<rparr>
          (always \<lparr>status = 403, retry_after = None, body_json = None,
                   body_typed = (Inl [] :: string + unit)\<rparr>)
          ''/crm/v3/objects/contacts/1'' (no_options :: unit RequestInit) [])
     = Inl (AuthenticationError ''Authentication failed. Check your API credentials.'')
   \<and> fst (request \<lparr>apiKey = Some ''key'', baseUrl = None, accessToken = None\<rparr>
          (always \<lparr>status = 204, retry_after = None, body_json = None,
                   body_typed = (Inl [] :: string + unit)\<rparr>)
          ''/crm/v3/objects/contacts/1'' \<lparr>req_method = Some ''DELETE'', req_body = (None :: unit option), req_headers = None\<rparr> [])
     = Inr None
   \<and> fst (request \<lparr>apiKey = Some ''key'', baseUrl = None, accessToken = None\<rparr>
          (always \<lparr>status = 200, retry_after = None, body_json = Some (JObj [(''id'', JStr ''1'')]),
                   body_typed = (Inr ''1'' :: string + string)\<rparr>)
          ''/crm/v3/objects/contacts/1'' (no_options :: unit RequestInit) [])
     = Inr (Some ''1'')"
  using C1_response_classification [OF getAuthHeaders_apiKey,
            of "always \<lparr>status = 404, retry_after = None,
                   body_json = Some (JObj [(''message'', JStr ''Not found'')]),
                   body_typed = (Inl [] :: string + unit)\<rparr>"
               "''/crm/v3/objects/contacts/1''" "no_options :: unit RequestInit" "[]"]
        C1_response_classification [OF getAuthHeaders_apiKey,
            of "always \<lparr>status = 500, retry_after = None,
                   body_json = Some (JObj [(''error'', JStr ''boom'')]),
                   body_typed = (Inl [] :: string + unit)\<rparr>"
               "''/crm/v3/objects/contacts/1''" "no_options :: unit RequestInit" "[]"]
        C1_response_classification [OF getAuthHeaders_apiKey,
            of "always \<lparr>status = 500, retry_after = None, body_json = None,
                   body_typed = (Inl [] :: string + unit)\<rparr>"
               "''/crm/v3/objects/contacts/1''" "no_options :: unit RequestInit" "[]"]
        C1_response_classification [OF getAuthHeaders_apiKey,
            of "always \<lparr>status = 403, retry_after = None, body_json = None,
                   body_typed = (Inl [] :: string + unit)\<rparr>"
               "''/crm/v3/objects/contacts/1''" "no_options :: unit RequestInit" "[]"]
        C1_response_classification [OF getAuthHeaders_apiKey,
            of "always \<lparr>status = 204, retry_after = None, body_json = None,
                   body_typed = (Inl [] :: string + unit)\<rparr>"
               "''/crm/v3/objects/contacts/1''" "\<lparr>req_method = Some ''DELETE'', req_body = (None :: unit option), req_headers = None\<rparr>" "[]"]
        C1_response_classification [OF getAuthHeaders_apiKey,
            of "always \<lparr>status = 200, retry_after = None, body_json = Some (JObj [(''id'', JStr ''1'')]),
                   body_typed = (Inr ''1'' :: string + string)\<rparr>"
               "''/crm/v3/objects/contacts/1''" "no_options :: unit RequestInit" "[]"]
  by (simp add: Let_def always_def status_text_eval)

text \<open>
  The claim as stated (the fallback is for a body that is not JSON or lacks the fields)
  fails on a body that has the field with a falsy value: \<open>{"message": ""}\<close> under status
  500 gives the fallback text, not the field.
\<close>

theorem C1_empty_message_falls_back:
  "json_prop (JObj [(''message'', JStr [])]) ''message'' = Some (JStr [])
   \<and> fst (request example_credentials
          (always \<lparr>status = 500, retry_after = None,
                   body_json = Some (JObj [(''message'', JStr [])]),
                   body_typed = (Inl [] :: string + unit)\<rparr>)
          ''/crm/v3/objects/contacts/1'' (no_options :: unit RequestInit) [])
       = Inl (CrmApiError (JStr ''API error: 500'') 500)"
  by (simp add: request_def example_credentials_def getAuthHeaders_def truthy_str_def always_def
        classify_def ok_def error_message_def js_or_def status_text_eval Let_def)

text \<open>
  Claim C2, as amended. With credentials that hold neither an API key nor an access
  token (missing or empty), the request primitive throws AuthenticationError and the
  list of issued calls is unchanged, whatever the endpoint, the options and the
  continuation; so does every operation built on it. \<open>testConnection\<close> is the exception
  the claim misses: it catches the error and returns \<open>connected = false\<close> with the
  error's message, again without a call.
\<close>

theorem C2_no_credentials_no_network:
  assumes "\<not> truthy_str (apiKey c)" and "\<not> truthy_str (accessToken c)"
  shows "request c fetch endpoint options log =
           (Inl (AuthenticationError ''No credentials provided. Include X-CRM-API-Key or X-CRM-Access-Token header.''), log)
       \<and> bind_io (request c fetch endpoint options) k log =
           (Inl (AuthenticationError ''No credentials provided. Include X-CRM-API-Key or X-CRM-Access-Token header.''), log)
       \<and> testConnection c fetch0 log0 =
           (Inr \<lparr>connected = False,
                 message = JStr ''No credentials provided. Include X-CRM-API-Key or X-CRM-Access-Token header.''\<rparr>, log0)
       \<and> list_objects kind c fetch1 mapper1 params log1 =
           (Inl (AuthenticationError ''No credentials provided. Include X-CRM-API-Key or X-CRM-Access-Token header.''), log1)
       \<and> search_objects skind c fetch2 mapper2 sparams log2 =
           (Inl (AuthenticationError ''No credentials provided. Include X-CRM-API-Key or X-CRM-Access-Token header.''), log2)
       \<and> update_object e c fetch3 mapper3 ident input log3 =
           (Inl (AuthenticationError ''No credentials provided. Include X-CRM-API-Key or X-CRM-Access-Token header.''), log3)
       \<and> createContact c fetch4 mapper4 now input4 log4 =
           (Inl (AuthenticationError ''No credentials provided. Include X-CRM-API-Key or X-CRM-Access-Token header.''), log4)
       \<and> batchRead c fetch5 objectType ids ps mapper5 log5 =
           (Inl (AuthenticationError ''No credentials provided. Include X-CRM-API-Key or X-CRM-Access-Token header.''), log5)
       \<and> batchCreate c fetch6 objectType6 inputs6 pm6 mapper6 log6 =
           (Inl (AuthenticationError ''No credentials provided. Include X-CRM-API-Key or X-CRM-Access-Token header.''), log6)
       \<and> batchUpdate c fetch7 objectType7 inputs7 pm7 mapper7 log7 =
           (Inl (AuthenticationError ''No credentials provided. Include X-CRM-API-Key or X-CRM-Access-Token header.''), log7)
       \<and> list_pipelines_at path c fetch8 pf8 log8 =
           (Inl (AuthenticationError ''No credentials provided. Include X-CRM-API-Key or X-CRM-Access-Token header.''), log8)
       \<and> getPipeline c fetch9 pf9 objectType9 pipelineId9 log9 =
           (Inl (AuthenticationError ''No credentials provided. Include X-CRM-API-Key or X-CRM-Access-Token header.''), log9)
       \<and> createPipeline c fetch10 pf10 objectType10 pinput log10 =
           (Inl (AuthenticationError ''No credentials provided. Include X-CRM-API-Key or X-CRM-Access-Token header.''), log10)
       \<and> updatePipeline c fetch11 pf11 objectType11 pipelineId11 uinput log11 =
           (Inl (AuthenticationError ''No credentials provided. Include X-CRM-API-Key or X-CRM-Access-Token header.''), log11)
       \<and> logCall c fetch12 now12 contactId subj notes duration log12 =
           (Inl (AuthenticationError ''No credentials provided. Include X-CRM-API-Key or X-CRM-Access-Token header.''), log12)"
  by (simp add: bind_no_credentials [OF assms] request_no_credentials [OF assms]
        testConnection_def list_objects_def search_objects_def update_object_def createContact_def
        batchRead_def batchCreate_def batchUpdate_def list_pipelines_at_def getPipeline_def
        createPipeline_def updatePipeline_def logCall_def)

theorem C2_no_credentials_no_network_witness:
  "truthy_str (apiKey \<lparr>apiKey = None, baseUrl = None, accessToken = None\<rparr>) = False
   \<and> truthy_str (accessToken \<lparr>apiKey = None, baseUrl = None, accessToken = None\<rparr>) = False
   \<and> listContacts \<lparr>apiKey = None, baseUrl = None, accessToken = None\<rparr>
        (always \<lparr>status = 200, retry_after = None, body_json = None,
                 body_typed = Inr \<lparr>list_results = [], list_paging = None\<rparr>\<rparr>)
        obj_id None ([] :: unit fetch_call list)
     = (Inl (AuthenticationError ''No credentials provided. Include X-CRM-API-Key or X-CRM-Access-Token header.''), [])"
proof -
  have k: "\<not> truthy_str (apiKey \<lparr>apiKey = None, baseUrl = None, accessToken = None\<rparr>)"
    and t: "\<not> truthy_str (accessToken \<lparr>apiKey = None, baseUrl = None, accessToken = None\<rparr>)"
    by (simp_all add: truthy_str_def)
  note all = C2_no_credentials_no_network [OF k t]
  note fourth = all [THEN conjunct2, THEN conjunct2, THEN conjunct2, THEN conjunct1]
  show ?thesis
    using k t fourth [of Contacts] by (simp add: listContacts_def)
qed

text \<open>
  The claim as stated fails on \<open>testConnection\<close>: with no credentials it does not throw,
  it returns a value.
\<close>

theorem C2_testConnection_does_not_throw:
  "testConnection \<lparr>apiKey = None, baseUrl = None, accessToken = None\<rparr>
     (always \<lparr>status = 200, retry_after = None, body_json = None,
              body_typed = Inr \<lparr>list_results = [], list_paging = None\<rparr>\<rparr>)
     ([] :: unit fetch_call list)
   = (Inr \<lparr>connected = False,
          message = JStr ''No credentials provided. Include X-CRM-API-Key or X-CRM-Access-Token header.''\<rparr>, [])"
  by (simp add: testConnection_def request_def getAuthHeaders_def truthy_str_def)

text \<open>
  Claim C3 says the retry delay is 60 when the \<open>Retry-After\<close> header is malformed. The
  code guards the missing header only: a header that does not start with a number, such
  as the HTTP-date form, gives \<open>NaN\<close>.
\<close>

theorem C3_retry_after_http_date:
  "fst (request \<lparr>apiKey = Some ''key'', baseUrl = None, accessToken = None\<rparr>
          (always \<lparr>status = 429, retry_after = Some ''Wed, 21 Oct 2015 07:28:00 GMT'',
                   body_json = None, body_typed = (Inl [] :: string + unit)\<rparr>)
          ''/crm/v3/objects/contacts?limit=1'' (no_options :: unit RequestInit) [])
     = Inl (RateLimitError ''Rate limit exceeded'' NaN)"
  by (simp add: request_def getAuthHeaders_def truthy_str_def always_def classify_def Let_def
        js_parseInt_def is_space_def is_digit_def)

text \<open>The two cases the code does handle: a number of seconds, and no header.\<close>

lemma retry_after_seconds:
  "classify \<lparr>status = 429, retry_after = Some ''30'', body_json = None, body_typed = (Inl [] :: string + unit)\<rparr>
     = Inl (RateLimitError ''Rate limit exceeded'' (Finite 30))"
  "classify \<lparr>status = 429, retry_after = None, body_json = None, body_typed = (Inl [] :: string + unit)\<rparr>
     = Inl (RateLimitError ''Rate limit exceeded'' (Finite 60))"
  by (simp_all add: classify_def truthy_str_def js_parseInt_def is_space_def is_digit_def
        digits_val_def digit_val_def round53_def)

section \<open>Search filters\<close>


text \<open>
  At run time the operator is a string. One that is neither a key of the table nor a
  name that \<open>Object.prototype\<close> defines becomes \<open>EQ\<close>; for a name that \<open>Object.prototype\<close>
  defines, the read \<open>mapping[op]\<close> finds the inherited member.
\<close>

lemma mapFilterOperator_default:
  "map_of operator_mapping op = None \<Longrightarrow> op \<notin> set Object_prototype_names \<Longrightarrow>
     mapFilterOperator op = OwnString ''EQ''"
  by (simp add: mapFilterOperator_def literal_get_def)

lemma mapFilterOperator_inherited_each:
  "mapFilterOperator ''constructor'' = Inherited ''constructor''"
  "mapFilterOperator ''__defineGetter__'' = Inherited ''__defineGetter__''"
  "mapFilterOperator ''__defineSetter__'' = Inherited ''__defineSetter__''"
  "mapFilterOperator ''hasOwnProperty'' = Inherited ''hasOwnProperty''"
  "mapFilterOperator ''__lookupGetter__'' = Inherited ''__lookupGetter__''"
  "mapFilterOperator ''__lookupSetter__'' = Inherited ''__lookupSetter__''"
  "mapFilterOperator ''isPrototypeOf'' = Inherited ''isPrototypeOf''"
  "mapFilterOperator ''propertyIsEnumerable'' = Inherited ''propertyIsEnumerable''"
  "mapFilterOperator ''toString'' = Inherited ''toString''"
  "mapFilterOperator ''valueOf'' = Inherited ''valueOf''"
  "mapFilterOperator ''__proto__'' = Inherited ''__proto__''"
  "mapFilterOperator ''toLocaleString'' = Inherited ''toLocaleString''"
  by (simp_all add: mapFilterOperator_def literal_get_def operator_mapping_def Object_prototype_names_def)

lemma mapFilterOperator_inherited:
  assumes "op \<in> set Object_prototype_names"
  shows "mapFilterOperator op = Inherited op"
proof -
  from assms have "op = ''constructor'' \<or> op = ''__defineGetter__'' \<or> op = ''__defineSetter__''
      \<or> op = ''hasOwnProperty'' \<or> op = ''__lookupGetter__'' \<or> op = ''__lookupSetter__''
      \<or> op = ''isPrototypeOf'' \<or> op = ''propertyIsEnumerable'' \<or> op = ''toString''
      \<or> op = ''valueOf'' \<or> op = ''__proto__'' \<or> op = ''toLocaleString''"
    unfolding Object_prototype_names_def by simp
  then show ?thesis
    using mapFilterOperator_inherited_each by (elim disjE) simp_all
qed









section \<open>Batch results\<close>

text \<open>
  Claim C6. When the backend answers a batch create, update or read with a 2xx body
  that carries results and errors, the call returns one BatchResult: the status, the
  mapped results in order, and the errors as they came. Nothing is thrown, whatever the
  errors are.
\<close>

theorem C6_batch_partial_failure:
  assumes "getAuthHeaders c = Inr auth" and "succeeds_with r b"
  shows "fst (batchCreate c (always r) objectType inputs propertyMapper resultMapper log)
           = Inr (batch_result resultMapper b)
       \<and> fst (batchUpdate c (always r) objectType' inputs' propertyMapper' resultMapper log')
           = Inr (batch_result resultMapper b)
       \<and> fst (batchRead c (always r) objectType'' ids props resultMapper log'')
           = Inr (batch_result resultMapper b)
       \<and> results (batch_result resultMapper b) = map resultMapper (batch_results b)
       \<and> errors (batch_result resultMapper b) = batch_errors b
       \<and> result_status (batch_result resultMapper b) = batch_status b
       \<and> length (results (batch_result resultMapper b)) = length (batch_results b)"
  by (simp add: batchCreate_def batchUpdate_def batchRead_def bind_request_success [OF assms]
        return_io_def batch_result_def)

theorem C6_batch_partial_failure_witness:
  "succeeds_with
     \<lparr>status = 207, retry_after = None, body_json = None,
      body_typed = Inr \<lparr>batch_status = ''COMPLETE'',
        batch_results =
          [\<lparr>obj_id = ''1'', obj_properties = Map.empty, obj_createdAt = ''t'', obj_updatedAt = ''t'', obj_archived = False\<rparr>,
           \<lparr>obj_id = ''2'', obj_properties = Map.empty, obj_createdAt = ''t'', obj_updatedAt = ''t'', obj_archived = False\<rparr>],
        batch_errors = Some [\<lparr>error_status = ''error'', error_text = ''Contact already exists''\<rparr>]\<rparr>\<rparr>
     \<lparr>batch_status = ''COMPLETE'',
        batch_results =
          [\<lparr>obj_id = ''1'', obj_properties = Map.empty, obj_createdAt = ''t'', obj_updatedAt = ''t'', obj_archived = False\<rparr>,
           \<lparr>obj_id = ''2'', obj_properties = Map.empty, obj_createdAt = ''t'', obj_updatedAt = ''t'', obj_archived = False\<rparr>],
        batch_errors = Some [\<lparr>error_status = ''error'', error_text = ''Contact already exists''\<rparr>]\<rparr>
   \<and> fst (batch_create_objects BatchContacts \<lparr>apiKey = Some ''key'', baseUrl = None, accessToken = None\<rparr>
        (always \<lparr>status = 207, retry_after = None, body_json = None,
          body_typed = Inr \<lparr>batch_status = ''COMPLETE'',
            batch_results =
              [\<lparr>obj_id = ''1'', obj_properties = Map.empty, obj_createdAt = ''t'', obj_updatedAt = ''t'', obj_archived = False\<rparr>,
               \<lparr>obj_id = ''2'', obj_properties = Map.empty, obj_createdAt = ''t'', obj_updatedAt = ''t'', obj_archived = False\<rparr>],
            batch_errors = Some [\<lparr>error_status = ''error'', error_text = ''Contact already exists''\<rparr>]\<rparr>\<rparr>)
        obj_id
        [\<lparr>text_field = [''email'' \<mapsto> ''a@x.io''], number_field = Map.empty, customFields = None\<rparr>,
         \<lparr>text_field = [''email'' \<mapsto> ''b@x.io''], number_field = Map.empty, customFields = None\<rparr>,
         \<lparr>text_field = [''email'' \<mapsto> ''a@x.io''], number_field = Map.empty, customFields = None\<rparr>]
        [])
     = Inr \<lparr>result_status = ''COMPLETE'', results = [''1'', ''2''],
            errors = Some [\<lparr>error_status = ''error'', error_text = ''Contact already exists''\<rparr>]\<rparr>"
proof -
  let ?b = "\<lparr>batch_status = ''COMPLETE'',
        batch_results =
          [\<lparr>obj_id = ''1'', obj_properties = Map.empty, obj_createdAt = ''t'', obj_updatedAt = ''t'', obj_archived = False\<rparr>,
           \<lparr>obj_id = ''2'', obj_properties = Map.empty, obj_createdAt = ''t'', obj_updatedAt = ''t'', obj_archived = False\<rparr>],
        batch_errors = Some [\<lparr>error_status = ''error'', error_text = ''Contact already exists''\<rparr>]\<rparr>"
  let ?r = "\<lparr>status = 207, retry_after = None, body_json = None, body_typed = Inr ?b\<rparr>"
  have s: "succeeds_with ?r ?b"
    by (simp add: succeeds_with_def)
  have "fst (batchCreate \<lparr>apiKey = Some ''key'', baseUrl = None, accessToken = None\<rparr> (always ?r)
            (batch_segment BatchContacts)
            [\<lparr>text_field = [''email'' \<mapsto> ''a@x.io''], number_field = Map.empty, customFields = None\<rparr>,
             \<lparr>text_field = [''email'' \<mapsto> ''b@x.io''], number_field = Map.empty, customFields = None\<rparr>,
             \<lparr>text_field = [''email'' \<mapsto> ''a@x.io''], number_field = Map.empty, customFields = None\<rparr>]
            (batch_create_properties BatchContacts) obj_id [])
          = Inr (batch_result obj_id ?b)"
    by (rule C6_batch_partial_failure [OF getAuthHeaders_apiKey s, THEN conjunct1])
  then show ?thesis
    using s by (simp add: batch_create_objects_def batch_result_def)
qed

section \<open>List pages\<close>

lemma twenty: "js_Number_toString 20 = ''20''"
  by (simp add: js_Number_toString_def nat_toString_def shortest_decimal_def decimal.simps digit_char_def)

lemma urlencode_names:
  "urlencode ''limit'' = ''limit''" "urlencode ''properties'' = ''properties''"
  "urlencode ''after'' = ''after''" "urlencode ''20'' = ''20''"
  by (simp_all add: urlencode_def urlencode_char_def)

lemma list_query_default:
  assumes "(case params of None \<Rightarrow> None | Some p \<Rightarrow> limit p) = None"
  shows "URLSearchParams_toString (list_query kind params) =
           ''limit=20&properties='' @ urlencode (list_properties kind)
             @ (if truthy_str (case params of None \<Rightarrow> None | Some p \<Rightarrow> cursor p)
                then ''&after='' @ urlencode (the (case params of None \<Rightarrow> None | Some p \<Rightarrow> cursor p))
                else [])"
  using assms
  by (simp add: list_query_def limit_or_default_def truthy_num_def twenty Let_def
        URLSearchParams_toString_def urlencode_names)

lemma list_objects_success:
  "getAuthHeaders c = Inr auth \<Longrightarrow> succeeds_with r b \<Longrightarrow>
     list_objects kind c (always r) mapper params log =
       (Inr (page_of mapper b),
        log @ [fetch_call_of c auth
                 (list_path kind @ ''?'' @ URLSearchParams_toString (list_query kind params)) no_options])"
  by (simp add: list_objects_def bind_request_success return_io_def)

text \<open>
  Claim C7, as amended. For each of the thirteen paginated list operations: the query
  begins \<open>limit=20&properties=...\<close> when no limit is given; the page has the mapped
  items, \<open>count\<close> is their number, \<open>nextCursor\<close> is \<open>paging.next.after\<close> verbatim
  (\<open>undefined\<close> when there is none), and \<open>hasMore\<close> is true exactly when that pointer is
  there and is not the empty string.
\<close>

theorem C7_list_pagination:
  assumes "getAuthHeaders c = Inr auth" and "succeeds_with r b"
  shows "list_objects kind c (always r) mapper params log =
           (Inr (page_of mapper b),
            log @ [fetch_call_of c auth
                     (list_path kind @ ''?'' @ URLSearchParams_toString (list_query kind params)) no_options])
       \<and> ((case params of None \<Rightarrow> None | Some p \<Rightarrow> limit p) = None \<longrightarrow>
            URLSearchParams_toString (list_query kind params) =
              ''limit=20&properties='' @ urlencode (list_properties kind)
                @ (if truthy_str (case params of None \<Rightarrow> None | Some p \<Rightarrow> cursor p)
                   then ''&after='' @ urlencode (the (case params of None \<Rightarrow> None | Some p \<Rightarrow> cursor p))
                   else []))
       \<and> items (page_of mapper b) = map mapper (list_results b)
       \<and> count (page_of mapper b) = int (length (items (page_of mapper b)))
       \<and> nextCursor (page_of mapper b) = paging_after (list_paging b)
       \<and> hasMore (page_of mapper b) = (\<exists>cur. paging_after (list_paging b) = Some cur \<and> cur \<noteq> [])
       \<and> (paging_after (list_paging b) = None \<longrightarrow>
            \<not> hasMore (page_of mapper b) \<and> nextCursor (page_of mapper b) = None)"
proof -
  have q: "(case params of None \<Rightarrow> None | Some p \<Rightarrow> limit p) = None \<longrightarrow>
            URLSearchParams_toString (list_query kind params) =
              ''limit=20&properties='' @ urlencode (list_properties kind)
                @ (if truthy_str (case params of None \<Rightarrow> None | Some p \<Rightarrow> cursor p)
                   then ''&after='' @ urlencode (the (case params of None \<Rightarrow> None | Some p \<Rightarrow> cursor p))
                   else [])"
    using list_query_default by blast
  have h: "hasMore (page_of mapper b) = (\<exists>cur. paging_after (list_paging b) = Some cur \<and> cur \<noteq> [])"
    by (cases "paging_after (list_paging b)") (simp_all add: page_of_def truthy_str_def)
  show ?thesis
    using list_objects_success [OF assms] q h
    by (simp add: page_of_def truthy_str_def)
qed

theorem C7_list_pagination_witness:
  "succeeds_with
     \<lparr>status = 200, retry_after = None, body_json = None,
      body_typed = Inr \<lparr>list_results =
          [\<lparr>obj_id = ''1'', obj_properties = Map.empty, obj_createdAt = ''t'', obj_updatedAt = ''t'', obj_archived = False\<rparr>],
        list_paging = Some \<lparr>next_page = Some \<lparr>after = ''abc''\<rparr>\<rparr>\<rparr>\<rparr>
     \<lparr>list_results =
          [\<lparr>obj_id = ''1'', obj_properties = Map.empty, obj_createdAt = ''t'', obj_updatedAt = ''t'', obj_archived = False\<rparr>],
        list_paging = Some \<lparr>next_page = Some \<lparr>after = ''abc''\<rparr>\<rparr>\<rparr>
   \<and> listContacts \<lparr>apiKey = Some ''key'', baseUrl = None, accessToken = None\<rparr>
        (always \<lparr>status = 200, retry_after = None, body_json = None,
          body_typed = Inr \<lparr>list_results =
              [\<lparr>obj_id = ''1'', obj_properties = Map.empty, obj_createdAt = ''t'', obj_updatedAt = ''t'', obj_archived = False\<rparr>],
            list_paging = Some \<lparr>next_page = Some \<lparr>after = ''abc''\<rparr>\<rparr>\<rparr>\<rparr>)
        obj_id None ([] :: unit fetch_call list)
     = (Inr \<lparr>items = [''1''], count = 1, page_total = None, hasMore = True, nextCursor = Some ''abc''\<rparr>,
        [\<lparr>url = ''https://api.hubapi.com/crm/v3/objects/contacts?limit=20&properties=firstname%2Clastname%2Cemail%2Cphone%2Cjobtitle%2Ccompany%2Clifecyclestage%2Chs_lead_status%2Ccreatedate%2Clastmodifieddate'',
          init = \<lparr>req_method = None, req_body = None,
                   req_headers = Some [''Authorization'' \<mapsto> ''Bearer key'', ''Content-Type'' \<mapsto> ''application/json'']\<rparr>\<rparr>])"
proof -
  let ?b = "\<lparr>list_results =
          [\<lparr>obj_id = ''1'', obj_properties = Map.empty, obj_createdAt = ''t'', obj_updatedAt = ''t'', obj_archived = False\<rparr>],
        list_paging = Some \<lparr>next_page = Some \<lparr>after = ''abc''\<rparr>\<rparr>\<rparr>"
  let ?r = "\<lparr>status = 200, retry_after = None, body_json = None, body_typed = Inr ?b\<rparr>"
  have s: "succeeds_with ?r ?b"
    by (simp add: succeeds_with_def)
  have enc: "urlencode CONTACT_PROPERTIES =
      ''firstname%2Clastname%2Cemail%2Cphone%2Cjobtitle%2Ccompany%2Clifecyclestage%2Chs_lead_status%2Ccreatedate%2Clastmodifieddate''"
    by (simp add: CONTACT_PROPERTIES_def urlencode_def urlencode_char_def hex_digit_def)
  note c7 = C7_list_pagination [OF getAuthHeaders_apiKey s, of Contacts obj_id None "[] :: unit fetch_call list"]
  show ?thesis
    using s c7 [THEN conjunct1] c7 [THEN conjunct2, THEN conjunct1]
    by (simp add: listContacts_def page_of_def paging_after_def truthy_str_def enc
          fetch_call_of_def no_options_def client_baseUrl_def API_BASE_URL_def)
qed

text \<open>
  The claim as stated (\<open>hasMore\<close> is true when the pointer is present, and \<open>nextCursor\<close>
  is \<open>undefined\<close> when \<open>hasMore\<close> is false) fails on a pointer that is the empty string:
  \<open>hasMore\<close> is false and \<open>nextCursor\<close> is \<open>""\<close>.
\<close>

theorem C7_empty_cursor:
  "paging_after (Some \<lparr>next_page = Some \<lparr>after = []\<rparr>\<rparr>) = Some []
   \<and> fst (listContacts \<lparr>apiKey = Some ''key'', baseUrl = None, accessToken = None\<rparr>
        (always \<lparr>status = 200, retry_after = None, body_json = None,
          body_typed = Inr \<lparr>list_results = [], list_paging = Some \<lparr>next_page = Some \<lparr>after = []\<rparr>\<rparr>\<rparr>\<rparr>)
        obj_id None ([] :: unit fetch_call list))
     = Inr \<lparr>items = [], count = 0, page_total = None, hasMore = False, nextCursor = Some []\<rparr>"
  by (simp add: listContacts_def list_objects_def bind_io_def request_def getAuthHeaders_def
        truthy_str_def always_def classify_def ok_def return_io_def page_of_def paging_after_def Let_def)

section \<open>Pipeline stages\<close>

lemma set_insert_by: "set (insert_by cmp x xs) = insert x (set xs)"
  by (induction xs) auto

lemma length_insert_by: "length (insert_by cmp x xs) = Suc (length xs)"
  by (induction xs) auto

lemma sorted_insert_by:
  "sorted (map displayOrder xs) \<Longrightarrow>
     sorted (map displayOrder (insert_by (\<lambda>a b. displayOrder a - displayOrder b) x xs))"
  by (induction xs) (auto simp add: set_insert_by)

lemma set_js_sort: "set (js_sort cmp xs) = set xs"
  by (induction xs) (simp_all add: js_sort_def set_insert_by)

lemma length_js_sort: "length (js_sort cmp xs) = length xs"
  by (induction xs) (simp_all add: js_sort_def length_insert_by)

lemma sorted_js_sort:
  "sorted (map displayOrder (js_sort (\<lambda>a b. displayOrder a - displayOrder b) xs))"
  by (induction xs) (simp_all add: js_sort_def sorted_insert_by)

lemma stage_orders:
  "map ps_order (p_stages (map_pipeline pf p)) =
     map displayOrder (js_sort (\<lambda>a b. displayOrder a - displayOrder b) (stages p))"
  by (simp add: map_pipeline_def map_stage_def comp_def)

lemma stages_ascending:
  assumes "Suc i < length (p_stages (map_pipeline pf p))"
  shows "ps_order (p_stages (map_pipeline pf p) ! i) \<le> ps_order (p_stages (map_pipeline pf p) ! Suc i)"
proof -
  have s: "sorted (map ps_order (p_stages (map_pipeline pf p)))"
    by (simp only: stage_orders sorted_js_sort)
  have "map ps_order (p_stages (map_pipeline pf p)) ! i \<le> map ps_order (p_stages (map_pipeline pf p)) ! Suc i"
    using s assms by (intro sorted_nth_mono) simp_all
  then show ?thesis
    using assms by simp
qed

text \<open>
  Claim C9. Whatever order the backend returns the stages in, the stages of a mapped
  pipeline ascend by \<open>order\<close>: \<open>stages[i].order <= stages[i+1].order\<close> for every \<open>i\<close>; they
  are the backend's stages, none lost. getPipeline, createPipeline, updatePipeline,
  listPipelines and listTicketPipelines return pipelines mapped this way.
\<close>

theorem C9_stages_sorted:
  "(\<forall>i. Suc i < length (p_stages (map_pipeline pf p)) \<longrightarrow>
        ps_order (p_stages (map_pipeline pf p) ! i) \<le> ps_order (p_stages (map_pipeline pf p) ! Suc i))
   \<and> length (p_stages (map_pipeline pf p)) = length (stages p)
   \<and> set (p_stages (map_pipeline pf p)) = map_stage pf ` set (stages p)
   \<and> (getAuthHeaders c = Inr auth \<and> succeeds_with r p \<longrightarrow>
        fst (getPipeline c (always r) pf objectType pipelineId log) = Inr (map_pipeline pf p)
      \<and> fst (createPipeline c (always r) pf objectType input log1) = Inr (map_pipeline pf p)
      \<and> fst (updatePipeline c (always r) pf objectType pipelineId uinput log2) = Inr (map_pipeline pf p))
   \<and> (getAuthHeaders c = Inr auth \<and> succeeds_with rs ps \<longrightarrow>
        fst (listPipelines c (always rs) pf log3) = Inr (map (map_pipeline pf) (pipelines_results ps))
      \<and> fst (listTicketPipelines c (always rs) pf log4) = Inr (map (map_pipeline pf) (pipelines_results ps)))"
proof -
  have a: "\<forall>i. Suc i < length (p_stages (map_pipeline pf p)) \<longrightarrow>
        ps_order (p_stages (map_pipeline pf p) ! i) \<le> ps_order (p_stages (map_pipeline pf p) ! Suc i)"
    using stages_ascending by blast
  have b: "length (p_stages (map_pipeline pf p)) = length (stages p)"
    by (simp add: map_pipeline_def length_js_sort)
  have c: "set (p_stages (map_pipeline pf p)) = map_stage pf ` set (stages p)"
    by (simp add: map_pipeline_def set_js_sort)
  have d: "getAuthHeaders c = Inr auth \<and> succeeds_with r p \<longrightarrow>
        fst (getPipeline c (always r) pf objectType pipelineId log) = Inr (map_pipeline pf p)
      \<and> fst (createPipeline c (always r) pf objectType input log1) = Inr (map_pipeline pf p)
      \<and> fst (updatePipeline c (always r) pf objectType pipelineId uinput log2) = Inr (map_pipeline pf p)"
  proof (intro impI, elim conjE)
    assume h: "getAuthHeaders c = Inr auth" "succeeds_with r p"
    show "fst (getPipeline c (always r) pf objectType pipelineId log) = Inr (map_pipeline pf p)
      \<and> fst (createPipeline c (always r) pf objectType input log1) = Inr (map_pipeline pf p)
      \<and> fst (updatePipeline c (always r) pf objectType pipelineId uinput log2) = Inr (map_pipeline pf p)"
      by (simp add: getPipeline_def createPipeline_def updatePipeline_def bind_request_success [OF h]
            pipeline_result_def return_io_def)
  qed
  have e: "getAuthHeaders c = Inr auth \<and> succeeds_with rs ps \<longrightarrow>
        fst (listPipelines c (always rs) pf log3) = Inr (map (map_pipeline pf) (pipelines_results ps))
      \<and> fst (listTicketPipelines c (always rs) pf log4) = Inr (map (map_pipeline pf) (pipelines_results ps))"
  proof (intro impI, elim conjE)
    assume h: "getAuthHeaders c = Inr auth" "succeeds_with rs ps"
    show "fst (listPipelines c (always rs) pf log3) = Inr (map (map_pipeline pf) (pipelines_results ps))
      \<and> fst (listTicketPipelines c (always rs) pf log4) = Inr (map (map_pipeline pf) (pipelines_results ps))"
      by (simp add: listPipelines_def listTicketPipelines_def list_pipelines_at_def
            bind_request_success [OF h] return_io_def)
  qed
  show ?thesis
    using a b c d e by blast
qed

theorem C9_stages_sorted_witness:
  "Suc 0 < length (p_stages (map_pipeline digits_val example_pipeline))
   \<and> ps_order (p_stages (map_pipeline digits_val example_pipeline) ! 0)
       \<le> ps_order (p_stages (map_pipeline digits_val example_pipeline) ! Suc 0)
   \<and> map ps_order (p_stages (map_pipeline digits_val example_pipeline)) = [1, 2, 3]
   \<and> map ps_id (p_stages (map_pipeline digits_val example_pipeline)) = [''new'', ''demo'', ''won'']
   \<and> getAuthHeaders example_credentials
       = Inr [''Authorization'' \<mapsto> ''Bearer key'', ''Content-Type'' \<mapsto> ''application/json'']
   \<and> succeeds_with (json_response 200 example_pipeline) example_pipeline
   \<and> fst (getPipeline example_credentials (always (json_response 200 example_pipeline)) digits_val
            ''deals'' ''default'' ([] :: unit fetch_call list))
       = Inr (map_pipeline digits_val example_pipeline)"
proof -
  have len: "Suc 0 < length (p_stages (map_pipeline digits_val example_pipeline))"
    by (simp add: map_pipeline_def example_pipeline_def js_sort_def)
  have a: "getAuthHeaders example_credentials
       = Inr [''Authorization'' \<mapsto> ''Bearer key'', ''Content-Type'' \<mapsto> ''application/json'']"
    by (simp add: example_credentials_def getAuthHeaders_def truthy_str_def)
  have s: "succeeds_with (json_response 200 example_pipeline) example_pipeline"
    by (simp add: succeeds_with_def json_response_def)
  note c9 = C9_stages_sorted [of digits_val example_pipeline example_credentials _ "json_response 200 example_pipeline"]
  have asc: "ps_order (p_stages (map_pipeline digits_val example_pipeline) ! 0)
       \<le> ps_order (p_stages (map_pipeline digits_val example_pipeline) ! Suc 0)"
    using c9 [THEN conjunct1] len by blast
  have got: "fst (getPipeline example_credentials (always (json_response 200 example_pipeline)) digits_val
            ''deals'' ''default'' ([] :: unit fetch_call list))
       = Inr (map_pipeline digits_val example_pipeline)"
    using c9 [THEN conjunct2, THEN conjunct2, THEN conjunct2, THEN conjunct1] a s by blast
  have ord: "map ps_order (p_stages (map_pipeline digits_val example_pipeline)) = [1, 2, 3]"
    by (simp add: map_pipeline_def map_stage_def example_pipeline_def example_stage_def js_sort_def)
  have ids: "map ps_id (p_stages (map_pipeline digits_val example_pipeline)) = [''new'', ''demo'', ''won'']"
    by (simp add: map_pipeline_def map_stage_def example_pipeline_def example_stage_def js_sort_def)
  show ?thesis
    using len asc ord ids a s got by simp
qed

section \<open>Create and update: what is sent\<close>

lemma assign_lookup:
  "assign key s p k = (if k = key \<and> key \<noteq> ''__proto__'' then Some s else p k)"
  by (simp add: assign_def)

lemma set_if_defined_lookup:
  "set_if_defined name v p k =
     (if k = name \<and> name \<noteq> ''__proto__'' then (case v of None \<Rightarrow> p k | Some s \<Rightarrow> Some s) else p k)"
  by (cases v) (simp_all add: set_if_defined_def assign_lookup)

lemma set_if_truthy_lookup:
  "set_if_truthy name v p k =
     (if k = name \<and> name \<noteq> ''__proto__'' \<and> truthy_str v then v else p k)"
  by (cases v) (simp_all add: set_if_truthy_def assign_lookup truthy_str_def)

lemma set_number_if_defined_lookup:
  "set_number_if_defined name n p k =
     (if k = name \<and> name \<noteq> ''__proto__''
      then (case n of None \<Rightarrow> p k | Some x \<Rightarrow> Some (js_Number_toString x)) else p k)"
  by (cases n) (simp_all add: set_number_if_defined_def assign_lookup)

lemma merge_entries_over:
  "merge_entries es p k = (case merge_entries es Map.empty k of Some s \<Rightarrow> Some s | None \<Rightarrow> p k)"
proof (induction es arbitrary: p)
  case Nil
  then show ?case by simp
next
  case (Cons e es)
  obtain key v where e: "e = (key, v)" by (cases e)
  show ?case
    unfolding e merge_entries.simps
    apply (subst Cons.IH)
    apply (subst (2) Cons.IH)
    apply (simp add: assign_lookup split: option.splits)
    done
qed

lemma merge_customFields_over:
  "merge_customFields cf p k =
     (case merge_customFields cf Map.empty k of Some s \<Rightarrow> Some s | None \<Rightarrow> p k)"
  by (cases cf) (simp_all add: merge_customFields_def merge_entries_over [symmetric])



lemma exec_over:
  "exec st p k = (case exec st Map.empty k of Some s \<Rightarrow> Some s | None \<Rightarrow> p k)"
proof (cases st)
  case (IfDefined name v)
  then show ?thesis by (simp add: set_if_defined_lookup split: option.splits)
next
  case (IfTruthy name v)
  then show ?thesis by (cases v) (simp_all add: set_if_truthy_lookup truthy_str_def)
next
  case (NumIfDefined name n)
  then show ?thesis by (simp add: set_number_if_defined_lookup split: option.splits)
next
  case (Assign name s)
  then show ?thesis by (simp add: assign_lookup)
next
  case (MergeCustom cf)
  then show ?thesis by (simp add: merge_customFields_over [symmetric])
qed

lemma run_statements_Nil: "run_statements [] k = None"
  by (simp add: run_statements_def)

lemma run_statements_snoc:
  "run_statements (stmts @ [st]) k =
     (case exec st Map.empty k of Some s \<Rightarrow> Some s | None \<Rightarrow> run_statements stmts k)"
  by (simp add: run_statements_def exec_over [symmetric])

lemma run_statements_source:
  "run_statements stmts k = Some s \<Longrightarrow> \<exists>st \<in> set stmts. exec st Map.empty k = Some s"
proof (induction stmts arbitrary: s rule: rev_induct)
  case Nil
  then show ?case by (simp add: run_statements_Nil)
next
  case (snoc st stmts)
  then show ?case
    by (cases "exec st Map.empty k") (auto simp add: run_statements_snoc)
qed


lemma set_number_if_defined_empty:
  "set_number_if_defined name n Map.empty k =
     (if k = name \<and> name \<noteq> ''__proto__'' then map_option js_Number_toString n else None)"
  by (cases n) (simp_all add: set_number_if_defined_lookup)

lemma set_if_truthy_empty:
  "set_if_truthy name v Map.empty k =
     (if k = name \<and> name \<noteq> ''__proto__'' \<and> truthy_str v then v else None)"
  by (simp add: set_if_truthy_lookup)

lemma run_statements_peel:
  "run_statements (st # stmts) k =
     (case exec (last (st # stmts)) Map.empty k of
        Some s \<Rightarrow> Some s
      | None \<Rightarrow> run_statements (butlast (st # stmts)) k)"
  using run_statements_snoc [of "butlast (st # stmts)" "last (st # stmts)" k]
  by (simp only: append_butlast_last_id [of "st # stmts"] list.distinct not_False_eq_True)





























section \<open>Call durations\<close>

text \<open>
  Decimal strings: \<open>decimal n\<close> is made of digits only, \<open>parseInt\<close> reads it back as \<open>n\<close>,
  and below \<open>2^53\<close> it is what \<open>String\<close> writes.
\<close>

lemma digit_cases:
  "d < 10 \<Longrightarrow> d = 0 \<or> d = 1 \<or> d = 2 \<or> d = 3 \<or> d = 4 \<or> d = 5 \<or> d = 6 \<or> d = 7 \<or> d = 8 \<or> d = (9::nat)"
  by arith

lemma digit_char_props:
  assumes "d < 10"
  shows "is_digit (digit_char d)" and "\<not> is_space (digit_char d)"
    and "digit_char d \<noteq> CHR ''-''" and "digit_char d \<noteq> CHR ''+''"
    and "digit_val (digit_char d) = d"
  using digit_cases [OF assms]
  by (elim disjE; simp add: digit_char_def is_digit_def is_space_def digit_val_def)+

lemma decimal_not_Nil: "decimal n \<noteq> []"
  by (subst decimal.simps) simp

lemma decimal_digits: "c \<in> set (decimal n) \<Longrightarrow> \<exists>d < 10. c = digit_char d"
proof (induction n rule: decimal.induct)
  case (1 n)
  show ?case
  proof (cases "n < 10")
    case True
    then show ?thesis using "1.prems" by (subst (asm) decimal.simps) auto
  next
    case False
    have "c \<in> set (decimal (n div 10)) \<or> c = digit_char (n mod 10)"
      using "1.prems" False by (subst (asm) decimal.simps) auto
    then show ?thesis
    proof
      assume "c \<in> set (decimal (n div 10))"
      then show ?thesis using "1.IH" False by simp
    next
      assume "c = digit_char (n mod 10)"
      moreover have "n mod 10 < 10" by simp
      ultimately show ?thesis by blast
    qed
  qed
qed

lemma digits_val_snoc: "digits_val (ds @ [c]) = 10 * digits_val ds + digit_val c"
  by (simp add: digits_val_def)

lemma digits_val_decimal: "digits_val (decimal n) = n"
proof (induction n rule: decimal.induct)
  case (1 n)
  show ?case
  proof (cases "n < 10")
    case True
    then show ?thesis
      by (subst decimal.simps) (simp add: digits_val_def digit_char_props(5))
  next
    case False
    then have "digits_val (decimal n) = 10 * digits_val (decimal (n div 10)) + digit_val (digit_char (n mod 10))"
      by (subst decimal.simps) (simp add: digits_val_snoc)
    then show ?thesis
      using "1.IH" False by (simp add: digit_char_props(5))
  qed
qed

lemma length_decimal: "n < 10 ^ k \<Longrightarrow> 0 < k \<Longrightarrow> length (decimal n) \<le> k"
proof (induction n arbitrary: k rule: decimal.induct)
  case (1 n)
  show ?case
  proof (cases "n < 10")
    case True
    then show ?thesis using "1.prems" by (subst decimal.simps) simp
  next
    case False
    then obtain j where k: "k = Suc j"
      using "1.prems" by (cases k) auto
    have "0 < j"
      using False "1.prems"(1) k by (cases j) auto
    moreover have "n div 10 < 10 ^ j"
      using "1.prems"(1) k by (simp add: less_mult_imp_div_less mult.commute)
    ultimately have "length (decimal (n div 10)) \<le> j"
      using "1.IH" False by simp
    then show ?thesis
      using False k by (subst decimal.simps) simp
  qed
qed

lemma takeWhile_all: "\<forall>c \<in> set xs. P c \<Longrightarrow> takeWhile P xs = xs"
  by (induction xs) simp_all

lemma hd_decimal:
  "\<not> is_space (hd (decimal n))" "hd (decimal n) \<noteq> CHR ''-''" "hd (decimal n) \<noteq> CHR ''+''"
proof -
  have "hd (decimal n) \<in> set (decimal n)"
    using decimal_not_Nil by simp
  then have "\<exists>d < 10. hd (decimal n) = digit_char d"
    by (rule decimal_digits)
  then obtain d where d: "d < 10" and h: "hd (decimal n) = digit_char d"
    by (elim exE conjE)
  show "\<not> is_space (hd (decimal n))"
    unfolding h using d by (rule digit_char_props(2))
  show "hd (decimal n) \<noteq> CHR ''-''"
    unfolding h using d by (rule digit_char_props(3))
  show "hd (decimal n) \<noteq> CHR ''+''"
    unfolding h using d by (rule digit_char_props(4))
qed

lemma dropWhile_hd: "xs \<noteq> [] \<Longrightarrow> \<not> P (hd xs) \<Longrightarrow> dropWhile P xs = xs"
  by (cases xs) simp_all

lemma decimal_all_digits: "\<forall>c \<in> set (decimal n). is_digit c"
proof
  fix c
  assume "c \<in> set (decimal n)"
  then have "\<exists>d < 10. c = digit_char d"
    by (rule decimal_digits)
  then obtain d where d: "d < 10" and h: "c = digit_char d"
    by (elim exE conjE)
  show "is_digit c"
    unfolding h using d by (rule digit_char_props(1))
qed

lemma takeWhile_decimal: "takeWhile is_digit (decimal n) = decimal n"
  using decimal_all_digits by (rule takeWhile_all)

lemma js_parseInt_digits:
  assumes "s \<noteq> []" and "\<not> is_space (hd s)" and "hd s \<noteq> CHR ''-''" and "hd s \<noteq> CHR ''+''"
    and "takeWhile is_digit s = s"
  shows "js_parseInt s = Finite (int (round53 (digits_val s)))"
proof -
  have d: "dropWhile is_space s = s"
    using assms(1,2) by (rule dropWhile_hd)
  show ?thesis
    unfolding js_parseInt_def d Let_def
    by (simp only: assms if_False if_True simp_thms mult_1)
qed

lemma round53_small: "n < 9007199254740992 \<Longrightarrow> round53 n = n"
  by (simp add: round53_def)

lemma js_parseInt_decimal:
  assumes "n < 9007199254740992"
  shows "js_parseInt (decimal n) = Finite (int n)"
proof -
  have "js_parseInt (decimal n) = Finite (int (round53 (digits_val (decimal n))))"
    using decimal_not_Nil hd_decimal takeWhile_decimal by (rule js_parseInt_digits)
  then show ?thesis
    by (simp only: digits_val_decimal round53_small [OF assms])
qed

lemma js_Number_toString_small:
  assumes "0 \<le> n" and "n < 9007199254740992"
  shows "js_Number_toString n = decimal (nat n)"
proof -
  have "nat n < 10 ^ 21"
    using assms by simp
  then have l: "length (decimal (nat n)) \<le> 21"
    by (rule length_decimal) simp
  have "nat n \<le> 2 ^ 53"
    using assms by simp
  then have s: "shortest_decimal (nat n) = nat n"
    unfolding shortest_decimal_def by (simp only: if_True)
  have "nat_toString (nat n) = decimal (nat n)"
    unfolding nat_toString_def s Let_def using l by (simp only: if_True)
  then show ?thesis
    using assms(1) by (simp add: js_Number_toString_def)
qed

lemma js_times_small:
  assumes "0 \<le> a" and "0 \<le> b" and "a * b < 9007199254740992"
  shows "js_times a b = a * b"
proof -
  have p: "0 \<le> a * b" using assms(1,2) by simp
  then have "nat \<bar>a * b\<bar> < 9007199254740992"
    using assms(3) by simp
  then have r: "round53 (nat \<bar>a * b\<bar>) = nat \<bar>a * b\<bar>"
    by (rule round53_small)
  show ?thesis
    unfolding js_times_def r using p by (cases "a * b = 0") (simp_all add: sgn_if)
qed

lemma milliseconds:
  assumes "0 < d" and "d * 60000 < 9007199254740992"
  shows "js_times (js_times d 60) 1000 = d * 60000"
proof -
  have a: "js_times d 60 = d * 60"
    using assms by (intro js_times_small) simp_all
  have "js_times (d * 60) 1000 = d * 60 * 1000"
    using assms by (intro js_times_small) simp_all
  then show ?thesis
    by (simp add: a)
qed

text \<open>
  Exact quotients: when the divisor divides the significand and the quotient fits 53
  bits, \<open>divide53\<close> returns it unrounded; so a whole number of minutes, in milliseconds,
  divided by 1000 and by 60, is that number.
\<close>

lemma bit_length_double: "0 < n \<Longrightarrow> bit_length (2 * n) = Suc (bit_length n)"
  by (subst bit_length.simps) simp

lemma bit_length_shift: "0 < c \<Longrightarrow> bit_length (c * 2 ^ j) = bit_length c + j"
proof (induction j)
  case 0
  then show ?case by simp
next
  case (Suc j)
  have "c * 2 ^ Suc j = 2 * (c * 2 ^ j)"
    by simp
  moreover have "0 < c * 2 ^ j"
    using Suc.prems by simp
  ultimately have "bit_length (c * 2 ^ Suc j) = Suc (bit_length (c * 2 ^ j))"
    by (simp only: bit_length_double)
  then show ?case
    using Suc by simp
qed

lemma bit_length_le: "c < 2 ^ j \<Longrightarrow> bit_length c \<le> j"
proof (induction j arbitrary: c)
  case 0
  then have "c = 0" by simp
  then show ?case by (simp add: bit_length.simps)
next
  case (Suc j)
  show ?case
  proof (cases "c = 0")
    case True
    then show ?thesis by (simp add: bit_length.simps)
  next
    case False
    have "c div 2 < 2 ^ j"
      using Suc.prems by simp
    then have "bit_length (c div 2) \<le> j"
      by (rule Suc.IH)
    then show ?thesis
      using False by (subst bit_length.simps) simp
  qed
qed

lemma bit_length_pos: "0 < c \<Longrightarrow> 0 < bit_length c"
  by (subst bit_length.simps) simp

lemma divide53_exact:
  assumes "0 < c" and "c < 2 ^ 53" and "0 < k"
  shows "divide53 (k * c * 2 ^ s) e k =
           (c * 2 ^ (53 - bit_length c), e + int s - int (53 - bit_length c))"
proof -
  define t where "t = 54 + bit_length k"
  define u where "u = 53 - bit_length c"
  define b where "b = bit_length c + s + t - 53"
  have lc: "bit_length c \<le> 53"
    using assms(2) by (rule bit_length_le)
  have pc: "0 < bit_length c"
    using assms(1) by (rule bit_length_pos)
  have st: "s + t = b + u"
    using lc pc unfolding b_def u_def t_def by simp
  have bpos: "0 < b"
    using pc unfolding b_def t_def by simp
  have n: "k * c * 2 ^ s * 2 ^ t = k * (c * 2 ^ (s + t))"
    by (simp add: power_add)
  have q0: "(k * c * 2 ^ s * 2 ^ t) div k = c * 2 ^ u * 2 ^ b"
    using assms(3) by (simp only: n st) (simp add: power_add mult.commute)
  have r0: "(k * c * 2 ^ s * 2 ^ t) mod k = 0"
    by (simp only: n) simp
  have "c * 2 ^ u * 2 ^ b = c * 2 ^ (s + t)"
    unfolding st power_add by (simp add: ac_simps)
  then have "bit_length (c * 2 ^ u * 2 ^ b) = bit_length (c * 2 ^ (s + t))"
    by (rule arg_cong)
  also have "\<dots> = bit_length c + (s + t)"
    using assms(1) by (rule bit_length_shift)
  finally have bl: "bit_length (c * 2 ^ u * 2 ^ b) - 53 = b"
    unfolding b_def by simp
  have h: "0 < 2 ^ (b - 1) * k"
    using assms(3) by simp
  have ex: "e - int t + int b = e + int s - int u"
    using st by linarith
  have "divide53 (k * c * 2 ^ s) e k = (c * 2 ^ u, e - int t + int b)"
    unfolding divide53_def t_def [symmetric] Let_def q0 r0 bl
    using h by simp
  then show ?thesis
    unfolding ex u_def .
qed

lemma Math_round_exact: "Math_round (int (d * 2 ^ u)) (- int u) = int d"
proof (cases u)
  case 0
  then show ?thesis by (simp add: Math_round_def)
next
  case (Suc j)
  have z: "((2::int) ^ j) div 2 ^ Suc j = 0"
    by (rule div_pos_pos_trivial) simp_all
  have "(2 ^ j + int d * 2 ^ Suc j) div 2 ^ Suc j = int d + (2 ^ j) div 2 ^ Suc j"
    by (rule div_mult_self1) simp
  then have "(int d * 2 ^ Suc j + 2 ^ j) div 2 ^ Suc j = int d"
    by (simp only: z add.commute [of "int d * 2 ^ Suc j"] add_0_right)
  then have r: "(int d * 2 ^ Suc j + 2 ^ j) div 2 ^ Suc j = int d" .
  have e: "nat (- (- int u) - 1) = j" "nat (- (- int u)) = Suc j"
    using Suc by simp_all
  have neg: "\<not> 0 \<le> - int u"
    using Suc by simp
  have m: "int (d * 2 ^ u) = int d * 2 ^ Suc j"
    using Suc by simp
  show ?thesis
    unfolding Math_round_def e m using neg r by (simp only: if_False)
qed

lemma round_to_minutes_exact:
  assumes "0 < d" and "d * 60000 < 9007199254740992"
  shows "round_to_minutes (Finite (d * 60000)) = Finite d"
proof -
  define n where "n = nat d"
  have d: "d = int n" and npos: "0 < n"
    using assms(1) unfolding n_def by simp_all
  have c1: "60 * n < 2 ^ 53" and c2: "n < 2 ^ 53"
    using assms(2) unfolding d by simp_all
  define u1 where "u1 = 53 - bit_length (60 * n)"
  define u2 where "u2 = 53 - bit_length n"
  have m: "nat \<bar>d * 60000\<bar> = 1000 * (60 * n) * 2 ^ 0"
    unfolding d by (simp add: nat_mult_distrib)
  have p1: "0 < 60 * n"
    using npos by simp
  have first: "divide53 (nat \<bar>d * 60000\<bar>) 0 1000 = (60 * n * 2 ^ u1, - int u1)"
    unfolding m u1_def using divide53_exact [OF p1 c1, of 1000 0 0] by simp
  have second: "divide53 (60 * n * 2 ^ u1) (- int u1) 60 = (n * 2 ^ u2, - int u2)"
    unfolding u2_def using divide53_exact [OF npos c2, of 60 u1 "- int u1"] by simp
  have nz: "d * 60000 \<noteq> 0" and sg: "sgn (d * 60000) = 1"
    using assms(1) by simp_all
  have "round_to_minutes (Finite (d * 60000)) =
      Finite (Math_round (sgn (d * 60000) * int (n * 2 ^ u2)) (- int u2))"
    using nz by (simp add: first second)
  also have "\<dots> = Finite (int n)"
    unfolding sg by (simp only: mult_1 Math_round_exact)
  finally show ?thesis
    unfolding d .
qed

lemma bit_length_values:
  "bit_length 1000 = 10" "bit_length 60 = 6"
  "bit_length 110680464442257309 = 57"
  "bit_length 132922799578491590057392317084467 = 107"
  by (simp_all add: bit_length.simps)

lemma divide53_six:
  "divide53 6 0 1000 = (6917529027641082, - 60)"
  "divide53 6917529027641082 (- 60) 60 = (7378697629483821, - 66)"
  by (simp_all add: divide53_def bit_length_values Let_def)

lemma round_to_minutes_six: "round_to_minutes (Finite 6) = Finite 0"
  by (simp add: divide53_six Math_round_def)

text \<open>What logCall writes under \<open>hs_call_duration\<close>, and what the mapper reads from it.\<close>

lemma logCall_duration_sent:
  "d \<noteq> 0 \<Longrightarrow>
     logCall_properties now subj notes (Some d) ''hs_call_duration'' =
       Some (js_Number_toString (js_times (js_times d 60) 1000))"
  by (simp add: logCall_properties_def truthy_num_def run_statements_peel assign_lookup)

lemma logCall_duration_not_sent:
  "logCall_properties now subj notes (Some 0) ''hs_call_duration'' = None"
  "logCall_properties now subj notes None ''hs_call_duration'' = None"
  by (simp_all add: logCall_properties_def truthy_num_def run_statements_peel run_statements_Nil
        assign_lookup set_if_truthy_empty)

lemma call_duration_read:
  "obj_properties obj ''hs_call_duration'' = Some s \<Longrightarrow> s \<noteq> [] \<Longrightarrow>
     durationMinutes (mapHubSpotActivity obj CallActivity) = Some (round_to_minutes (js_parseInt s))"
  by (simp add: mapHubSpotActivity_def Let_def truthy_str_def)

lemma logCall_first_call:
  "getAuthHeaders c = Inr auth \<Longrightarrow>
     hd (snd (logCall c fetch now contactId subj notes duration [])) =
       fetch_call_of c auth ''/crm/v3/objects/calls''
         \<lparr>req_method = Some ''POST'', req_body = Some (logCall_properties now subj notes duration),
          req_headers = None\<rparr>"
  by (simp add: logCall_def bind_io_def request_with_credentials throw_io_def return_io_def
        split: sum.splits option.splits prod.splits)

text \<open>
  While the milliseconds stay below \<open>2^53\<close>, the duration goes out as the decimal string
  of \<open>d * 60 * 1000\<close> and reads back as \<open>d\<close>; a duration of zero or none sends no
  \<open>hs_call_duration\<close>.
\<close>

lemma call_duration_round_trip:
  assumes "0 < d" and "d * 60000 < 2 ^ 53"
  shows "logCall_properties now subj notes (Some d) ''hs_call_duration'' =
           Some (decimal (nat (d * 60 * 1000)))
       \<and> (obj_properties obj ''hs_call_duration'' = Some (decimal (nat (d * 60 * 1000))) \<longrightarrow>
            durationMinutes (mapHubSpotActivity obj CallActivity) = Some (Finite d))
       \<and> logCall_properties now subj notes (Some 0) ''hs_call_duration'' = None
       \<and> logCall_properties now subj notes None ''hs_call_duration'' = None
       \<and> (getAuthHeaders c = Inr auth \<longrightarrow>
            hd (snd (logCall c fetch now contactId subj notes duration [])) =
              fetch_call_of c auth ''/crm/v3/objects/calls''
                \<lparr>req_method = Some ''POST'',
                 req_body = Some (logCall_properties now subj notes duration),
                 req_headers = None\<rparr>)"
proof -
  have b: "d * 60000 < 9007199254740992"
    using assms(2) by simp
  have ms: "js_times (js_times d 60) 1000 = d * 60000"
    using assms(1) b by (rule milliseconds)
  have str: "js_Number_toString (d * 60000) = decimal (nat (d * 60000))"
    using assms(1) b by (intro js_Number_toString_small) simp_all
  have e: "d * 60 * 1000 = d * 60000"
    by simp
  have dz: "d \<noteq> 0"
    using assms(1) by simp
  have p1: "logCall_properties now subj notes (Some d) ''hs_call_duration'' =
           Some (decimal (nat (d * 60 * 1000)))"
    by (simp only: e logCall_duration_sent [OF dz] ms str)
  have nb: "nat (d * 60000) < 9007199254740992"
    using b by simp
  have "int (nat (d * 60000)) = d * 60000"
    using assms(1) by simp
  then have parsed: "js_parseInt (decimal (nat (d * 60000))) = Finite (d * 60000)"
    using js_parseInt_decimal [OF nb] by simp
  have p2: "obj_properties obj ''hs_call_duration'' = Some (decimal (nat (d * 60 * 1000))) \<longrightarrow>
            durationMinutes (mapHubSpotActivity obj CallActivity) = Some (Finite d)"
  proof
    assume "obj_properties obj ''hs_call_duration'' = Some (decimal (nat (d * 60 * 1000)))"
    then have "obj_properties obj ''hs_call_duration'' = Some (decimal (nat (d * 60000)))"
      by (simp only: e)
    then have "durationMinutes (mapHubSpotActivity obj CallActivity) =
        Some (round_to_minutes (js_parseInt (decimal (nat (d * 60000)))))"
      using decimal_not_Nil by (rule call_duration_read)
    then show "durationMinutes (mapHubSpotActivity obj CallActivity) = Some (Finite d)"
      by (simp only: parsed round_to_minutes_exact [OF assms(1) b])
  qed
  show ?thesis
    using p1 p2 logCall_duration_not_sent [of now subj "notes"]
      logCall_first_call [of c auth fetch now contactId subj "notes" duration]
    by blast
qed

lemma decimal_1800000: "decimal 1800000 = ''1800000''"
  by (simp add: decimal.simps digit_char_def)

lemma call_duration_round_trip_example:
  "(0::int) < 30 \<and> (30::int) * 60000 < 2 ^ 53
   \<and> logCall_properties ''2024-05-01T00:00:00.000Z'' ''Intro call'' None (Some 30) ''hs_call_duration''
       = Some ''1800000''
   \<and> obj_properties (example_object ''9'' [''hs_call_duration'' \<mapsto> ''1800000'']) ''hs_call_duration''
       = Some ''1800000''
   \<and> durationMinutes
        (mapHubSpotActivity (example_object ''9'' [''hs_call_duration'' \<mapsto> ''1800000'']) CallActivity)
       = Some (Finite 30)"
proof -
  have h1: "(0::int) < 30" by simp
  have h2: "(30::int) * 60000 < 2 ^ 53" by simp
  have n: "nat (30 * 60 * 1000) = 1800000" by simp
  have o: "obj_properties (example_object ''9'' [''hs_call_duration'' \<mapsto> ''1800000'']) ''hs_call_duration''
       = Some ''1800000''"
    by (simp add: example_object_def)
  note c10 = call_duration_round_trip [OF h1 h2, of "''2024-05-01T00:00:00.000Z''" "''Intro call''" None
      "example_object ''9'' [''hs_call_duration'' \<mapsto> ''1800000'']"]
  have p1: "logCall_properties ''2024-05-01T00:00:00.000Z'' ''Intro call'' None (Some 30) ''hs_call_duration''
       = Some ''1800000''"
    using c10 [THEN conjunct1] by (simp only: n decimal_1800000)
  have p2: "durationMinutes
        (mapHubSpotActivity (example_object ''9'' [''hs_call_duration'' \<mapsto> ''1800000'']) CallActivity)
       = Some (Finite 30)"
    using c10 [THEN conjunct2, THEN conjunct1] o by (simp only: n decimal_1800000)
  show ?thesis
    using h1 h2 p1 o p2 by blast
qed








end
